theory Spec2Isabelle
  imports
    Main
    "HOL-Library.Multiset"
    "HOL-Library.Char_ord"
    "HOL-Library.List_Lexorder"
    "HOL-Library.Word"
begin

section \<open>The edge caching and coalescing worker (edge-functions/src/index.ts)\<close>

text \<open>
  The worker fronts five origin endpoints. The theory embeds its data (request bodies,
  cache entries, responses), its pure functions (key generation, staleness, response
  builders, parsers), the five handlers as state-passing functions over the worker's
  state, and the coalescing map as a transition system whose steps are the code
  segments between two \<^verbatim>\<open>await\<close>s.

  Platform built-ins whose text is not part of the repository are parameters of the
  definitions that call them: \<^verbatim>\<open>JSON.stringify\<close>, the SHA-256 digest rendered as
  hex, \<^verbatim>\<open>parseInt\<close> and the collation behind \<^verbatim>\<open>localeCompare\<close>.
\<close>

subsection \<open>JavaScript values\<close>

text \<open>
  Values of type \<^verbatim>\<open>any\<close> and the objects handed to \<^verbatim>\<open>JSON.stringify\<close>. An object is
  the list of its properties in insertion order; a property whose value is
  \<^verbatim>\<open>undefined\<close> is kept as \<open>JUndefined\<close> (the serializer decides what to do with it).
  Numbers are the integers the worker meets (ids, counts, milliseconds) and \<open>NaN\<close>,
  which \<^verbatim>\<open>parseInt\<close> may return.
\<close>

datatype json =
    JUndefined
  | JNull
  | JBool bool
  | JNum int
  | JNaN
  | JStr string
  | JArr "json list"
  | JObj "(string \<times> json) list"

type_synonym key = string

text \<open>The platform functions a definition may need.\<close>

record platform =
  stringify :: "json \<Rightarrow> string"
  digest :: "string \<Rightarrow> string"
  parseInt :: "string \<Rightarrow> json"
  collationKey :: "string \<Rightarrow> string"

definition optStr :: "string option \<Rightarrow> json" where
  "optStr s = (case s of None \<Rightarrow> JUndefined | Some v \<Rightarrow> JStr v)"

definition optVal :: "json option \<Rightarrow> json" where
  "optVal v = (case v of None \<Rightarrow> JUndefined | Some j \<Rightarrow> j)"

text \<open>Truthiness of an optional string: \<^verbatim>\<open>undefined\<close>, \<^verbatim>\<open>null\<close> and \<^verbatim>\<open>""\<close> are falsy.\<close>

definition truthy :: "string option \<Rightarrow> bool" where
  "truthy s = (case s of None \<Rightarrow> False | Some v \<Rightarrow> v \<noteq> [])"

subsection \<open>Number.prototype.toString on integers\<close>

definition digitChar :: "nat \<Rightarrow> char" where
  "digitChar d = char_of (48 + d)"

fun digits :: "nat \<Rightarrow> string" where
  "digits n = (if n < 10 then [digitChar n] else digits (n div 10) @ [digitChar (n mod 10)])"

declare digits.simps [simp del]

definition numberToString :: "int \<Rightarrow> string" where
  "numberToString i = (if i < 0 then CHR ''-'' # digits (nat (- i)) else digits (nat i))"

text \<open>Reading a decimal string back, used only to show that \<open>numberToString\<close> is injective.\<close>

definition digitVal :: "char \<Rightarrow> nat" where
  "digitVal c = of_char c - 48"

definition decimalVal :: "string \<Rightarrow> nat" where
  "decimalVal s = foldl (\<lambda>a c. 10 * a + digitVal c) 0 s"

definition readNumber :: "string \<Rightarrow> int" where
  "readNumber s = (case s of [] \<Rightarrow> 0
     | c # cs \<Rightarrow> if c = CHR ''-'' then - int (decimalVal cs) else int (decimalVal (c # cs)))"

subsection \<open>Request bodies\<close>

text \<open>
  The interfaces \<^verbatim>\<open>ProductRequestBody\<close>, \<^verbatim>\<open>CartRequestBody\<close>, \<^verbatim>\<open>StorefrontRequestBody\<close> and
  \<^verbatim>\<open>UpsellRequestBody\<close>. A body parsed from JSON is cast to its interface without a
  check, so each field may be absent; the validators below reject absent required
  fields.
\<close>

record ProductRequestBody =
  p_shop :: string
  p_productId :: "string option"
  p_productHandle :: "string option"
  p_type :: string
  p_layout :: "string option"
  p_limit :: "json option"
  p_excludeProductIds :: "string list option"
  p_cartToken :: "string option"

record CartRequestBody =
  c_shop :: "string option"
  c_type :: "string option"
  c_products :: "int list option"
  c_layout :: "string option"
  c_limit :: "json option"
  c_cartToken :: "string option"

text \<open>
  \<^verbatim>\<open>cart: any\<close>: the fields the worker reads, and \<open>cart_rest\<close> for everything else the
  storefront sends. A line item's \<^verbatim>\<open>variant_id\<close> is a number (the comparator subtracts
  two of them).
\<close>

record lineItem =
  variant_id :: int
  quantity :: json
  properties :: json
  item_rest :: json

record cart =
  token :: json
  total_price :: json
  item_count :: json
  items :: "lineItem list option"
  cart_rest :: json

record StorefrontRequestBody =
  s_cart :: "cart option"
  s_shop :: "string option"
  s_actionType :: "string option"
  s_variantId :: "string option"
  s_attribute :: "string option"

record upsellItem =
  u_productId :: string
  u_variantId :: "string option"

record UpsellRequestBody =
  up_shop :: "string option"
  up_type :: "string option"
  up_items :: "upsellItem list option"
  up_productId :: "string option"
  up_variantId :: "string option"

subsection \<open>Cache key generation\<close>

text \<open>
  Each generator builds an object, serializes it, hashes the text and prefixes the
  endpoint's namespace. \<^verbatim>\<open>Array.prototype.sort()\<close> without a comparator orders the
  elements by their string forms (code unit order); with a comparator it is a stable
  sort by that comparator. \<^verbatim>\<open>localeCompare\<close> orders strings by the platform's collation,
  taken here as the order of the collation keys the platform assigns.
\<close>

definition hashKey :: "platform \<Rightarrow> string \<Rightarrow> json \<Rightarrow> key" where
  "hashKey pf prefix obj = prefix @ digest pf (stringify pf obj)"

definition generateProductCacheKey :: "platform \<Rightarrow> ProductRequestBody \<Rightarrow> key" where
  "generateProductCacheKey pf body = hashKey pf ''rec_product_''
     (JObj [(''shop'', JStr (p_shop body)),
            (''productId'', optStr (p_productId body)),
            (''productHandle'', optStr (p_productHandle body)),
            (''type'', JStr (p_type body)),
            (''layout'', optStr (p_layout body)),
            (''limit'', optVal (p_limit body)),
            (''excludeProductIds'',
               (case p_excludeProductIds body of None \<Rightarrow> JUndefined
                | Some ids \<Rightarrow> JArr (map JStr (sort ids))))])"

definition generateCartCacheKey :: "platform \<Rightarrow> CartRequestBody \<Rightarrow> key" where
  "generateCartCacheKey pf body = hashKey pf ''rec_cart_''
     (JObj [(''shop'', optStr (c_shop body)),
            (''type'', optStr (c_type body)),
            (''products'',
               (case c_products body of None \<Rightarrow> JUndefined
                | Some ps \<Rightarrow> JArr (map JNum (sort_key numberToString ps)))),
            (''layout'', optStr (c_layout body)),
            (''limit'', optVal (c_limit body))])"

record keyedItem =
  k_id :: int
  k_quantity :: json
  k_properties :: json

definition keyItem :: "lineItem \<Rightarrow> keyedItem" where
  "keyItem item = \<lparr>k_id = variant_id item, k_quantity = quantity item,
                    k_properties = properties item\<rparr>"

definition keyedItemJson :: "keyedItem \<Rightarrow> json" where
  "keyedItemJson a = JObj [(''id'', JNum (k_id a)),
                           (''quantity'', k_quantity a),
                           (''properties'', k_properties a)]"

definition keyItems :: "lineItem list \<Rightarrow> keyedItem list" where
  "keyItems its = sort_key k_id (map keyItem its)"

definition generateStorefrontCacheKey :: "platform \<Rightarrow> StorefrontRequestBody \<Rightarrow> key" where
  "generateStorefrontCacheKey pf body = hashKey pf ''storefront_''
     (JObj [(''shop'', optStr (s_shop body)),
            (''cartToken'', (case s_cart body of None \<Rightarrow> JUndefined | Some c \<Rightarrow> token c)),
            (''cartTotal'', (case s_cart body of None \<Rightarrow> JUndefined | Some c \<Rightarrow> total_price c)),
            (''itemCount'', (case s_cart body of None \<Rightarrow> JUndefined | Some c \<Rightarrow> item_count c)),
            (''items'',
               (case s_cart body of None \<Rightarrow> JUndefined
                | Some c \<Rightarrow> (case items c of None \<Rightarrow> JUndefined
                            | Some its \<Rightarrow> JArr (map keyedItemJson (keyItems its)))))])"

definition keyUpsellItem :: "upsellItem \<Rightarrow> upsellItem" where
  "keyUpsellItem item = \<lparr>u_productId = u_productId item, u_variantId = u_variantId item\<rparr>"

definition upsellItemJson :: "upsellItem \<Rightarrow> json" where
  "upsellItemJson item = JObj [(''productId'', JStr (u_productId item)),
                               (''variantId'', optStr (u_variantId item))]"

definition generateUpsellCacheKey :: "platform \<Rightarrow> UpsellRequestBody \<Rightarrow> key" where
  "generateUpsellCacheKey pf body = hashKey pf ''upsell_''
     (JObj [(''shop'', optStr (up_shop body)),
            (''type'', optStr (up_type body)),
            (''items'',
               (case up_items body of None \<Rightarrow> JUndefined
                | Some its \<Rightarrow> JArr (map upsellItemJson
                         (sort_key (\<lambda>a. collationKey pf (u_productId a)) (map keyUpsellItem its))))),
            (''productId'', optStr (up_productId body)),
            (''variantId'', optStr (up_variantId body))])"

definition generateRecommendationsCacheKey :: "platform \<Rightarrow> string \<Rightarrow> string \<Rightarrow> key" where
  "generateRecommendationsCacheKey pf shop productHandle = hashKey pf ''recommendations_''
     (JObj [(''shop'', JStr shop), (''productHandle'', JStr productHandle)])"

subsection \<open>String helpers\<close>

text \<open>\<^verbatim>\<open>String.prototype.startsWith\<close>, \<^verbatim>\<open>includes\<close> and \<^verbatim>\<open>split\<close> on one separator character.\<close>

fun startsWith :: "string \<Rightarrow> string \<Rightarrow> bool" where
  "startsWith s [] = True"
| "startsWith [] (p # ps) = False"
| "startsWith (c # cs) (p # ps) = (c = p \<and> startsWith cs ps)"

fun str_includes :: "string \<Rightarrow> string \<Rightarrow> bool" where
  "str_includes [] p = (p = [])"
| "str_includes (c # cs) p = (startsWith (c # cs) p \<or> str_includes cs p)"

fun splitOn :: "char \<Rightarrow> string \<Rightarrow> string list" where
  "splitOn sep [] = [[]]"
| "splitOn sep (c # cs) =
     (if c = sep then [] # splitOn sep cs
      else (case splitOn sep cs of [] \<Rightarrow> [[c]] | part # parts \<Rightarrow> (c # part) # parts))"

subsection \<open>Cache entries and the key-value store\<close>

record CachedResponse =
  cr_data :: json
  cr_timestamp :: int
  cr_etag :: "string option"

text \<open>
  The text kept under a key is the serialization of an entry, or text that does not
  parse. Each value is stored with the \<^verbatim>\<open>expirationTtl\<close> (seconds) of its write; the
  store evicts by itself. A read fails when the store is unreachable or the payload is
  corrupt.
\<close>

datatype stored = Valid CachedResponse | Corrupt

record KVNamespace =
  kv_entries :: "key \<rightharpoonup> stored \<times> nat"
  kv_reachable :: bool

datatype kvError = StoreUnreachable | CorruptPayload

definition kvGet :: "KVNamespace \<Rightarrow> key \<Rightarrow> kvError + CachedResponse option" where
  "kvGet kv k =
     (if \<not> kv_reachable kv then Inl StoreUnreachable
      else (case kv_entries kv k of
              None \<Rightarrow> Inr None
            | Some (Corrupt, ttl) \<Rightarrow> Inl CorruptPayload
            | Some (Valid c, ttl) \<Rightarrow> Inr (Some c)))"

definition kvPut :: "KVNamespace \<Rightarrow> key \<Rightarrow> CachedResponse \<Rightarrow> nat \<Rightarrow> KVNamespace" where
  "kvPut kv k c ttl =
     (if kv_reachable kv then kv\<lparr>kv_entries := (kv_entries kv)(k \<mapsto> (Valid c, ttl))\<rparr> else kv)"

subsection \<open>Responses\<close>

datatype cacheStatus = HIT | MISS | STALE | BYPASS

fun cacheStatusText :: "cacheStatus \<Rightarrow> string" where
  "cacheStatusText HIT = ''HIT''"
| "cacheStatusText MISS = ''MISS''"
| "cacheStatusText STALE = ''STALE''"
| "cacheStatusText BYPASS = ''BYPASS''"

text \<open>\<open>JsonBody d\<close> is the body \<^verbatim>\<open>JSON.stringify(d)\<close>.\<close>

datatype responseBody = NoBody | TextBody string | JsonBody json

record Response =
  r_status :: nat
  r_headers :: "(string \<times> string) list"
  r_body :: responseBody

definition header :: "Response \<Rightarrow> string \<Rightarrow> string option" where
  "header r name = map_of (r_headers r) name"

text \<open>
  What one run of a handler reads from outside: the clock at each \<^verbatim>\<open>Date.now()\<close> and
  the outcome of the origin call.
\<close>

record thrown =
  isError :: bool
  message :: string

record originResponse =
  o_status :: nat
  o_etag :: "string option"
  o_json :: "thrown + json"

datatype originOutcome = Replied originResponse | Threw thrown

record io =
  startTime :: int
  nowStale :: int
  nowWrite :: int
  nowResponse :: int
  originReply :: originOutcome

definition ok :: "originResponse \<Rightarrow> bool" where
  "ok r = (200 \<le> o_status r \<and> o_status r \<le> 299)"

definition allowHeaders :: string where
  "allowHeaders = ''Content-Type, CF-Access-Client-Id, CF-Access-Client-Secret, cf-access-client-id, cf-access-client-secret, Accept, Accept-Language, Cache-Control, DNT, Origin, Pragma, Priority, Referer, Sec-CH-UA, Sec-CH-UA-Mobile, Sec-CH-UA-Platform, Sec-Fetch-Dest, Sec-Fetch-Mode, Sec-Fetch-Site, User-Agent''"

definition corsHeaders :: "(string \<times> string) list" where
  "corsHeaders = [(''Access-Control-Allow-Origin'', ''*''),
                  (''Access-Control-Allow-Methods'', ''GET, POST, OPTIONS''),
                  (''Access-Control-Allow-Headers'', allowHeaders)]"

definition responseTime :: "io \<Rightarrow> string" where
  "responseTime io = numberToString (nowResponse io - startTime io) @ ''ms''"

definition createSuccessResponse ::
    "json \<Rightarrow> cacheStatus \<Rightarrow> io \<Rightarrow> string option \<Rightarrow> Response" where
  "createSuccessResponse d cacheStatus io etag =
     \<lparr>r_status = 200,
      r_headers =
        [(''Content-Type'', ''application/json''),
         (''X-Cache'', cacheStatusText cacheStatus),
         (''X-Response-Time'', responseTime io),
         (''X-Powered-By'', ''Cloudflare-Worker''),
         (''Cache-Control'', if cacheStatus = HIT then ''public, max-age=60''
                             else ''public, max-age=10'')]
        @ corsHeaders
        @ (if truthy etag then [(''ETag'', the etag)] else []),
      r_body = JsonBody d\<rparr>"

definition createErrorResponse :: "string \<Rightarrow> nat \<Rightarrow> io \<Rightarrow> Response" where
  "createErrorResponse msg st io =
     \<lparr>r_status = st,
      r_headers =
        [(''Content-Type'', ''application/json''),
         (''X-Response-Time'', responseTime io),
         (''X-Powered-By'', ''Cloudflare-Worker'')]
        @ corsHeaders,
      r_body = JsonBody (JObj [(''success'', JBool False), (''error'', JStr msg)])\<rparr>"

subsection \<open>Staleness\<close>

definition ONE_HOUR :: int where
  "ONE_HOUR = 3600 * 1000"

definition isStale :: "int \<Rightarrow> CachedResponse \<Rightarrow> bool" where
  "isStale now cached = (now - cr_timestamp cached > ONE_HOUR)"

subsection \<open>The generated ETag\<close>

text \<open>
  \<^verbatim>\<open>hash = ((hash << 5) - hash) + char; hash = hash & hash\<close> is arithmetic modulo \<open>2^32\<close>
  read as a signed value; the tag is the absolute value in base 36, quoted.
\<close>

definition etagStep :: "32 word \<Rightarrow> char \<Rightarrow> 32 word" where
  "etagStep hash c = (push_bit 5 hash - hash) + of_nat (of_char c)"

definition base36Char :: "nat \<Rightarrow> char" where
  "base36Char d = (if d < 10 then char_of (48 + d) else char_of (87 + d))"

fun base36 :: "nat \<Rightarrow> string" where
  "base36 n = (if n < 36 then [base36Char n] else base36 (n div 36) @ [base36Char (n mod 36)])"

declare base36.simps [simp del]

definition generateEtag :: "platform \<Rightarrow> json \<Rightarrow> string" where
  "generateEtag pf d =
     [CHR 0x22] @ base36 (nat \<bar>sint (foldl etagStep 0 (stringify pf d))\<bar>) @ [CHR 0x22]"

subsection \<open>The worker's state\<close>

text \<open>
  \<open>inFlightRequests\<close> is the module-level map. For one run of a handler a promise found
  in it is given by the way it settles. The remaining fields record what a run did:
  the keys read from the store, the writes handed to \<^verbatim>\<open>ctx.waitUntil\<close>, the requests
  sent to an origin and the keys passed to \<^verbatim>\<open>inFlightRequests.set\<close>.
\<close>

datatype settled = Fulfilled Response | Rejected

datatype originBody =
    NoOriginBody
  | CartOriginBody CartRequestBody
  | StorefrontOriginBody StorefrontRequestBody
  | UpsellOriginBody UpsellRequestBody

text \<open>A request to an origin; of its headers only the names are kept.\<close>

record originRequest =
  o_url :: string
  o_query :: "(string \<times> string) list"
  o_method :: string
  o_headerNames :: "string list"
  o_body :: originBody

record worker =
  CACHE :: KVNamespace
  inFlightRequests :: "key \<rightharpoonup> settled"
  kvReads :: "key list"
  kvWrites :: "(key \<times> nat) list"
  originCalls :: "originRequest list"
  registered :: "key list"

record Env =
  ORIGIN_URL :: string
  THINK_ORIGIN_URL :: string

definition getCachedResponse :: "worker \<Rightarrow> key \<Rightarrow> CachedResponse option \<times> worker" where
  "getCachedResponse w k =
     ((case kvGet (CACHE w) k of Inl e \<Rightarrow> None | Inr cached \<Rightarrow> cached),
      w\<lparr>kvReads := kvReads w @ [k]\<rparr>)"

definition cachePut :: "worker \<Rightarrow> key \<Rightarrow> CachedResponse \<Rightarrow> nat \<Rightarrow> worker" where
  "cachePut w k c ttl =
     w\<lparr>CACHE := kvPut (CACHE w) k c ttl, kvWrites := kvWrites w @ [(k, ttl)]\<rparr>"

subsection \<open>Origin fetchers\<close>

text \<open>
  The five fetchers share their text after the call to \<^verbatim>\<open>fetch\<close>; they differ in the
  request they send, the timeout named in the error message, the \<^verbatim>\<open>expirationTtl\<close> of
  the write, and (storefront only) whether there is a key at all. \<open>originCatch\<close> is the
  \<^verbatim>\<open>catch\<close> block, \<open>originTry\<close> the \<^verbatim>\<open>try\<close> block from the reply on, given the key to
  write under (if the fetcher writes) and the tag of a fresh result.
\<close>

definition originCatch :: "string \<Rightarrow> CachedResponse option \<Rightarrow> thrown \<Rightarrow> io \<Rightarrow> Response" where
  "originCatch timeoutMessage staleCache err io =
     (case staleCache of
        Some c \<Rightarrow> createSuccessResponse (cr_data c) STALE io (cr_etag c)
      | None \<Rightarrow>
          createErrorResponse
            (if isError err \<and> str_includes (message err) ''abort''
             then timeoutMessage else ''Origin unavailable'')
            503 io)"

definition originTry ::
    "platform \<Rightarrow> string \<Rightarrow> nat \<Rightarrow> key option \<Rightarrow> cacheStatus \<Rightarrow> CachedResponse option \<Rightarrow> io
      \<Rightarrow> worker \<Rightarrow> Response \<times> worker" where
  "originTry pf timeoutMessage ttl writeKey tag staleCache io w =
     (case originReply io of
        Threw err \<Rightarrow> (originCatch timeoutMessage staleCache err io, w)
      | Replied originResponse \<Rightarrow>
          if \<not> ok originResponse then
            (case staleCache of
               Some c \<Rightarrow> (createSuccessResponse (cr_data c) STALE io (cr_etag c), w)
             | None \<Rightarrow>
                 (originCatch timeoutMessage staleCache
                    \<lparr>isError = True,
                     message = ''Origin returned '' @ numberToString (int (o_status originResponse))\<rparr>
                    io, w))
          else
            (case o_json originResponse of
               Inl err \<Rightarrow> (originCatch timeoutMessage staleCache err io, w)
             | Inr d \<Rightarrow>
                 (let etag = (if truthy (o_etag originResponse) then the (o_etag originResponse)
                              else generateEtag pf d);
                      w' = (case writeKey of
                              Some k \<Rightarrow> cachePut w k
                                \<lparr>cr_data = d, cr_timestamp = nowWrite io, cr_etag = Some etag\<rparr> ttl
                            | None \<Rightarrow> w)
                  in (createSuccessResponse d tag io (Some etag), w'))))"

definition cfAccessHeaderNames :: "string \<Rightarrow> string list" where
  "cfAccessHeaderNames originUrl =
     (if str_includes originUrl ''tunnel.magicsell.ai'' \<or> str_includes originUrl ''api.magicsell.ai''
      then [''CF-Access-Client-Id'', ''CF-Access-Client-Secret''] else [])"

definition send :: "originRequest \<Rightarrow> worker \<Rightarrow> worker" where
  "send rq w = w\<lparr>originCalls := originCalls w @ [rq]\<rparr>"

definition optParam :: "string \<Rightarrow> string option \<Rightarrow> (string \<times> string) list" where
  "optParam name v = (if truthy v then [(name, the v)] else [])"

definition productParams :: "ProductRequestBody \<Rightarrow> (string \<times> string) list" where
  "productParams body =
     [(''shop'', p_shop body), (''type'', p_type body)]
     @ optParam ''productId'' (p_productId body)
     @ optParam ''productHandle'' (p_productHandle body)
     @ optParam ''layout'' (p_layout body)
     @ optParam ''cartToken'' (p_cartToken body)"

definition fetchProductFromOrigin ::
    "platform \<Rightarrow> Env \<Rightarrow> ProductRequestBody \<Rightarrow> key \<Rightarrow> CachedResponse option \<Rightarrow> io \<Rightarrow> worker
      \<Rightarrow> Response \<times> worker" where
  "fetchProductFromOrigin pf env body cacheKey staleCache io w =
     originTry pf ''Origin timeout (10s)'' 3600 (Some cacheKey) MISS staleCache io
       (send \<lparr>o_url = ORIGIN_URL env @ ''/api/v2/recommendation/product'',
              o_query = productParams body,
              o_method = ''GET'',
              o_headerNames = [''Accept'', ''User-Agent''] @ cfAccessHeaderNames (ORIGIN_URL env),
              o_body = NoOriginBody\<rparr> w)"

definition fetchCartFromOrigin ::
    "platform \<Rightarrow> Env \<Rightarrow> CartRequestBody \<Rightarrow> key \<Rightarrow> CachedResponse option \<Rightarrow> io \<Rightarrow> worker
      \<Rightarrow> Response \<times> worker" where
  "fetchCartFromOrigin pf env body cacheKey staleCache io w =
     originTry pf ''Origin timeout (10s)'' 3600 (Some cacheKey) MISS staleCache io
       (send \<lparr>o_url = ORIGIN_URL env @ ''/api/v2/recommendation/cart'',
              o_query = [],
              o_method = ''POST'',
              o_headerNames = [''Content-Type'', ''Accept'', ''User-Agent'']
                              @ cfAccessHeaderNames (ORIGIN_URL env),
              o_body = CartOriginBody body\<rparr> w)"

definition fetchStorefrontFromOrigin ::
    "platform \<Rightarrow> Env \<Rightarrow> StorefrontRequestBody \<Rightarrow> key option \<Rightarrow> CachedResponse option \<Rightarrow> io
      \<Rightarrow> worker \<Rightarrow> Response \<times> worker" where
  "fetchStorefrontFromOrigin pf env body cacheKey staleCache io w =
     originTry pf ''Origin timeout (15s)'' 300
       (if truthy cacheKey \<and> \<not> truthy (s_actionType body) then cacheKey else None)
       (if truthy cacheKey then MISS else BYPASS) staleCache io
       (send \<lparr>o_url = ORIGIN_URL env @ ''/api/storefront'',
              o_query = [],
              o_method = ''POST'',
              o_headerNames = [''Content-Type'', ''Accept'', ''User-Agent'']
                              @ cfAccessHeaderNames (ORIGIN_URL env),
              o_body = StorefrontOriginBody body\<rparr> w)"

definition fetchUpsellFromOrigin ::
    "platform \<Rightarrow> Env \<Rightarrow> UpsellRequestBody \<Rightarrow> key \<Rightarrow> CachedResponse option \<Rightarrow> io \<Rightarrow> worker
      \<Rightarrow> Response \<times> worker" where
  "fetchUpsellFromOrigin pf env body cacheKey staleCache io w =
     originTry pf ''Origin timeout (10s)'' 1800 (Some cacheKey) MISS staleCache io
       (send \<lparr>o_url = ORIGIN_URL env @ ''/api/v2/funnel/upsell'',
              o_query = [],
              o_method = ''POST'',
              o_headerNames = [''Content-Type'', ''Accept'', ''User-Agent'']
                              @ cfAccessHeaderNames (ORIGIN_URL env),
              o_body = UpsellOriginBody body\<rparr> w)"

definition fetchRecommendationsFromOrigin ::
    "platform \<Rightarrow> Env \<Rightarrow> string \<Rightarrow> string \<Rightarrow> key \<Rightarrow> CachedResponse option \<Rightarrow> io \<Rightarrow> worker
      \<Rightarrow> Response \<times> worker" where
  "fetchRecommendationsFromOrigin pf env shop productHandle cacheKey staleCache io w =
     originTry pf ''Origin timeout (10s)'' 600 (Some cacheKey) MISS staleCache io
       (send \<lparr>o_url = THINK_ORIGIN_URL env @ ''/recommendations/handle/'' @ shop @ ''/''
                        @ productHandle,
              o_query = [],
              o_method = ''GET'',
              o_headerNames = [''Accept'', ''User-Agent''],
              o_body = NoOriginBody\<rparr> w)"

subsection \<open>Requests and their parsers\<close>

text \<open>
  An inbound request: method, path, query parameters in order, and the value of
  \<^verbatim>\<open>await request.json()\<close> seen through the interface of each POST endpoint (\<open>None\<close> when
  reading it throws).
\<close>

record Request =
  req_method :: string
  req_pathname :: string
  req_searchParams :: "(string \<times> string) list"
  req_cartJson :: "CartRequestBody option"
  req_storefrontJson :: "StorefrontRequestBody option"
  req_upsellJson :: "UpsellRequestBody option"

definition orUndefined :: "string option \<Rightarrow> string option" where
  "orUndefined v = (if truthy v then v else None)"

definition parseProductQueryParams :: "platform \<Rightarrow> Request \<Rightarrow> ProductRequestBody option" where
  "parseProductQueryParams pf req =
     (let params = map_of (req_searchParams req);
          shop = params ''shop'';
          type = params ''type'';
          productId = params ''productId'';
          productHandle = params ''productHandle'';
          layout = params ''layout'';
          cartToken = params ''cartToken''
      in if \<not> truthy shop \<or> \<not> truthy type then None
         else if \<not> truthy productId \<and> \<not> truthy productHandle then None
         else Some
           \<lparr>p_shop = the shop,
            p_productId = orUndefined productId,
            p_productHandle = orUndefined productHandle,
            p_type = the type,
            p_layout = orUndefined layout,
            p_limit = (if truthy (params ''limit'')
                       then Some (parseInt pf (the (params ''limit''))) else None),
            p_excludeProductIds = (if truthy (params ''excludeProductIds'')
                       then Some (splitOn (CHR '','') (the (params ''excludeProductIds'')))
                       else None),
            p_cartToken = orUndefined cartToken\<rparr>)"

definition parseCartRequestBody :: "Request \<Rightarrow> CartRequestBody option" where
  "parseCartRequestBody req =
     (case req_cartJson req of
        None \<Rightarrow> None
      | Some body \<Rightarrow> if \<not> truthy (c_shop body) \<or> \<not> truthy (c_type body) then None else Some body)"

definition parseStorefrontRequestBody :: "Request \<Rightarrow> StorefrontRequestBody option" where
  "parseStorefrontRequestBody req =
     (case req_storefrontJson req of
        None \<Rightarrow> None
      | Some body \<Rightarrow> if s_cart body = None \<or> \<not> truthy (s_shop body) then None else Some body)"

definition parseUpsellRequestBody :: "Request \<Rightarrow> UpsellRequestBody option" where
  "parseUpsellRequestBody req =
     (case req_upsellJson req of
        None \<Rightarrow> None
      | Some body \<Rightarrow>
          if \<not> truthy (up_shop body) \<or> \<not> truthy (up_type body) then None
          else if up_items body = None \<and> \<not> truthy (up_productId body) then None
          else Some body)"

subsection \<open>Handlers\<close>

text \<open>
  Every cacheable path runs the same text once it has a key: read the store, answer a
  fresh entry as a hit, else join the request in flight for the key, else call the
  origin with the entry read (stale or absent) as fallback, registered in the map for
  the duration of the call. A joined promise that rejects reaches the handler's outer
  \<^verbatim>\<open>catch\<close>.
\<close>

definition serveCached ::
    "key \<Rightarrow> (CachedResponse option \<Rightarrow> io \<Rightarrow> worker \<Rightarrow> Response \<times> worker) \<Rightarrow> io \<Rightarrow> worker
      \<Rightarrow> Response \<times> worker" where
  "serveCached cacheKey fetchFromOrigin io w0 =
     (let (cachedResponse, w) = getCachedResponse w0 cacheKey in
      if cachedResponse \<noteq> None \<and> \<not> isStale (nowStale io) (the cachedResponse)
      then (createSuccessResponse (cr_data (the cachedResponse)) HIT io
              (cr_etag (the cachedResponse)), w)
      else
        (case inFlightRequests w cacheKey of
           Some existingRequest \<Rightarrow>
             (case existingRequest of
                Fulfilled response \<Rightarrow> (response, w)
              | Rejected \<Rightarrow> (createErrorResponse ''Internal server error'' 500 io, w))
         | None \<Rightarrow>
             (let (response, w') = fetchFromOrigin cachedResponse io w
              in (response,
                  w'\<lparr>inFlightRequests :=
                        ((inFlightRequests w')(cacheKey \<mapsto> Fulfilled response))(cacheKey := None),
                     registered := registered w' @ [cacheKey]\<rparr>))))"

definition handleProductRecommendation ::
    "platform \<Rightarrow> Env \<Rightarrow> io \<Rightarrow> worker \<Rightarrow> Request \<Rightarrow> Response \<times> worker" where
  "handleProductRecommendation pf env io w req =
     (if req_method req \<noteq> ''GET'' then (createErrorResponse ''Method not allowed'' 405 io, w)
      else
        (case parseProductQueryParams pf req of
           None \<Rightarrow> (createErrorResponse ''Invalid request parameters'' 400 io, w)
         | Some body \<Rightarrow>
             (let cacheKey = generateProductCacheKey pf body;
                  sorted = body\<lparr>p_excludeProductIds := map_option sort (p_excludeProductIds body)\<rparr>
              in serveCached cacheKey (fetchProductFromOrigin pf env sorted cacheKey) io w)))"

definition handleCartRecommendation ::
    "platform \<Rightarrow> Env \<Rightarrow> io \<Rightarrow> worker \<Rightarrow> Request \<Rightarrow> Response \<times> worker" where
  "handleCartRecommendation pf env io w req =
     (if req_method req \<noteq> ''POST'' then (createErrorResponse ''Method not allowed'' 405 io, w)
      else
        (case parseCartRequestBody req of
           None \<Rightarrow> (createErrorResponse ''Invalid request parameters'' 400 io, w)
         | Some body \<Rightarrow>
             (let cacheKey = generateCartCacheKey pf body;
                  sorted = body\<lparr>c_products := map_option (sort_key numberToString) (c_products body)\<rparr>
              in serveCached cacheKey (fetchCartFromOrigin pf env sorted cacheKey) io w)))"

definition handleStorefrontRequest ::
    "platform \<Rightarrow> Env \<Rightarrow> io \<Rightarrow> worker \<Rightarrow> Request \<Rightarrow> Response \<times> worker" where
  "handleStorefrontRequest pf env io w req =
     (if req_method req \<noteq> ''POST'' then (createErrorResponse ''Method not allowed'' 405 io, w)
      else
        (case parseStorefrontRequestBody req of
           None \<Rightarrow> (createErrorResponse ''Invalid request parameters'' 400 io, w)
         | Some body \<Rightarrow>
             if \<not> truthy (s_actionType body) then
               (let cacheKey = generateStorefrontCacheKey pf body
                in serveCached cacheKey (fetchStorefrontFromOrigin pf env body (Some cacheKey)) io w)
             else fetchStorefrontFromOrigin pf env body None None io w))"

definition handleUpsellRequest ::
    "platform \<Rightarrow> Env \<Rightarrow> io \<Rightarrow> worker \<Rightarrow> Request \<Rightarrow> Response \<times> worker" where
  "handleUpsellRequest pf env io w req =
     (if req_method req \<noteq> ''POST'' then (createErrorResponse ''Method not allowed'' 405 io, w)
      else
        (case parseUpsellRequestBody req of
           None \<Rightarrow> (createErrorResponse ''Invalid request parameters'' 400 io, w)
         | Some body \<Rightarrow>
             (let cacheKey = generateUpsellCacheKey pf body
              in serveCached cacheKey (fetchUpsellFromOrigin pf env body cacheKey) io w)))"

definition handleThinkRecommendations ::
    "platform \<Rightarrow> Env \<Rightarrow> io \<Rightarrow> worker \<Rightarrow> Request \<Rightarrow> Response \<times> worker" where
  "handleThinkRecommendations pf env io w req =
     (if req_method req \<noteq> ''GET'' then (createErrorResponse ''Method not allowed'' 405 io, w)
      else
        (let pathParts = splitOn (CHR ''/'') (req_pathname req) in
         if length pathParts < 5 then (createErrorResponse ''Invalid URL format'' 400 io, w)
         else if pathParts ! 1 \<noteq> ''recommendations'' \<or> pathParts ! 2 \<noteq> ''handle''
         then (createErrorResponse ''Invalid URL format'' 400 io, w)
         else
           (let shop = pathParts ! 3; productHandle = pathParts ! 4 in
            if shop = [] \<or> productHandle = []
            then (createErrorResponse ''Missing shop or product handle'' 400 io, w)
            else
              (let cacheKey = generateRecommendationsCacheKey pf shop productHandle
               in serveCached cacheKey
                    (fetchRecommendationsFromOrigin pf env shop productHandle cacheKey) io w))))"

subsection \<open>The dispatcher\<close>

definition notFound :: Response where
  "notFound = \<lparr>r_status = 404,
               r_headers = [(''content-type'', ''text/plain;charset=UTF-8'')],
               r_body = TextBody ''Not found''\<rparr>"

definition preflight :: Response where
  "preflight = \<lparr>r_status = 200, r_headers = corsHeaders, r_body = NoBody\<rparr>"

definition fetch :: "platform \<Rightarrow> Env \<Rightarrow> io \<Rightarrow> worker \<Rightarrow> Request \<Rightarrow> Response \<times> worker" where
  "fetch pf env io w req =
     (let isProductEndpoint = str_includes (req_pathname req) ''/api/v2/recommendation/product'';
          isCartEndpoint = str_includes (req_pathname req) ''/api/v2/recommendation/cart'';
          isStorefrontEndpoint = str_includes (req_pathname req) ''/api/storefront'';
          isUpsellEndpoint = str_includes (req_pathname req) ''/api/v2/funnel/upsell'';
          isThinkRecommendationsEndpoint = startsWith (req_pathname req) ''/recommendations/handle/''
      in if \<not> isProductEndpoint \<and> \<not> isCartEndpoint \<and> \<not> isStorefrontEndpoint
            \<and> \<not> isUpsellEndpoint \<and> \<not> isThinkRecommendationsEndpoint
         then (notFound, w)
         else if req_method req = ''OPTIONS'' then (preflight, w)
         else if isProductEndpoint then handleProductRecommendation pf env io w req
         else if isCartEndpoint then handleCartRecommendation pf env io w req
         else if isStorefrontEndpoint then handleStorefrontRequest pf env io w req
         else if isUpsellEndpoint then handleUpsellRequest pf env io w req
         else if isThinkRecommendationsEndpoint then handleThinkRecommendations pf env io w req
         else (createErrorResponse ''Internal server error'' 500 io, w))"

subsection \<open>Coalescing as a transition system\<close>

text \<open>
  One worker instance serving many requests. Execution is cooperative: a handler runs
  without interruption from one \<^verbatim>\<open>await\<close> to the next, so the steps of the system are
  the segments of a cacheable handler after its store read:
  \<^item> \<open>Arrive\<close>: from the result of \<^verbatim>\<open>getCachedResponse\<close> to the next \<^verbatim>\<open>await\<close>: answer a
    fresh entry, or find the key in \<^verbatim>\<open>inFlightRequests\<close> and await that promise, or call
    the fetcher (which sends the origin request before it first suspends), register
    its promise and await it;
  \<^item> \<open>Settle\<close>: the fetcher's promise settles, fulfilled with a response or rejected;
  \<^item> \<open>Resume\<close>: a handler continues after its \<^verbatim>\<open>await\<close>: the producer deletes the key
    in its \<^verbatim>\<open>finally\<close> and returns the response, a joiner returns its clone; a
    rejection reaches the outer \<^verbatim>\<open>catch\<close> and becomes a 500.
  An event that is not enabled (a request id already in use, a promise already settled,
  a request whose promise is still pending) leaves the state as it is, so every list of
  events is a schedule. A promise is identified by its index in the list of promises
  created so far; \<open>originInvocations\<close> lists the keys of the origin calls made.
  \<open>Returned p r\<close> records that a request returned \<open>r\<close>, and the promise it had awaited.
  A clone of a response is the same value.
\<close>

record originPromise =
  pr_key :: key
  pr_state :: "settled option"

datatype task = AwaitingOwn key nat | AwaitingJoined nat | Returned "nat option" Response

record coalescer =
  promises :: "originPromise list"
  inFlight :: "key \<rightharpoonup> nat"
  tasks :: "nat \<rightharpoonup> task"
  originInvocations :: "key list"

definition initial :: coalescer where
  "initial = \<lparr>promises = [], inFlight = Map.empty, tasks = Map.empty, originInvocations = []\<rparr>"

datatype event =
    Arrive nat key "CachedResponse option" io
  | Settle nat settled
  | Resume nat io

definition promiseState :: "coalescer \<Rightarrow> nat \<Rightarrow> settled option" where
  "promiseState s p = (if p < length (promises s) then pr_state (promises s ! p) else None)"

definition arrive :: "nat \<Rightarrow> key \<Rightarrow> CachedResponse option \<Rightarrow> io \<Rightarrow> coalescer \<Rightarrow> coalescer" where
  "arrive r cacheKey cachedResponse io s =
     (if cachedResponse \<noteq> None \<and> \<not> isStale (nowStale io) (the cachedResponse)
      then s\<lparr>tasks := (tasks s)(r \<mapsto> Returned None
                (createSuccessResponse (cr_data (the cachedResponse)) HIT io
                   (cr_etag (the cachedResponse))))\<rparr>
      else
        (case inFlight s cacheKey of
           Some existingRequest \<Rightarrow> s\<lparr>tasks := (tasks s)(r \<mapsto> AwaitingJoined existingRequest)\<rparr>
         | None \<Rightarrow>
             (let requestPromise = length (promises s)
              in s\<lparr>promises := promises s @ [\<lparr>pr_key = cacheKey, pr_state = None\<rparr>],
                   originInvocations := originInvocations s @ [cacheKey],
                   inFlight := (inFlight s)(cacheKey \<mapsto> requestPromise),
                   tasks := (tasks s)(r \<mapsto> AwaitingOwn cacheKey requestPromise)\<rparr>)))"

definition settle :: "nat \<Rightarrow> settled \<Rightarrow> coalescer \<Rightarrow> coalescer" where
  "settle p out s =
     (if p < length (promises s) \<and> pr_state (promises s ! p) = None
      then s\<lparr>promises := (promises s)[p := (promises s ! p)\<lparr>pr_state := Some out\<rparr>]\<rparr>
      else s)"

definition delivered :: "settled \<Rightarrow> io \<Rightarrow> Response" where
  "delivered out io =
     (case out of
        Fulfilled response \<Rightarrow> response
      | Rejected \<Rightarrow> createErrorResponse ''Internal server error'' 500 io)"

definition resume :: "nat \<Rightarrow> io \<Rightarrow> coalescer \<Rightarrow> coalescer" where
  "resume r io s =
     (case tasks s r of
        Some (AwaitingOwn cacheKey requestPromise) \<Rightarrow>
          (case promiseState s requestPromise of
             None \<Rightarrow> s
           | Some out \<Rightarrow>
               s\<lparr>inFlight := (inFlight s)(cacheKey := None),
                 tasks := (tasks s)(r \<mapsto> Returned (Some requestPromise) (delivered out io))\<rparr>)
      | Some (AwaitingJoined existingRequest) \<Rightarrow>
          (case promiseState s existingRequest of
             None \<Rightarrow> s
           | Some out \<Rightarrow>
               s\<lparr>tasks := (tasks s)(r \<mapsto> Returned (Some existingRequest) (delivered out io))\<rparr>)
      | _ \<Rightarrow> s)"

fun step :: "event \<Rightarrow> coalescer \<Rightarrow> coalescer" where
  "step (Arrive r cacheKey cachedResponse io) s =
     (if tasks s r = None then arrive r cacheKey cachedResponse io s else s)"
| "step (Settle p out) s = settle p out s"
| "step (Resume r io) s = resume r io s"

definition run :: "event list \<Rightarrow> coalescer \<Rightarrow> coalescer" where
  "run evs s = foldl (\<lambda>s e. step e s) s evs"

text \<open>The origin calls for a key that have not settled yet.\<close>

definition pendingFor :: "coalescer \<Rightarrow> key \<Rightarrow> nat list" where
  "pendingFor s k =
     filter (\<lambda>p. pr_key (promises s ! p) = k \<and> pr_state (promises s ! p) = None)
       [0 ..< length (promises s)]"

subsection \<open>Notions used by the statements\<close>

text \<open>
  The three cases of the staleness policy as the handlers compute them: the test before
  a hit, and the entry (stale or absent) handed to the fetcher as fallback.
\<close>

datatype freshness = Fresh | Stale | Absent

definition classify :: "int \<Rightarrow> CachedResponse option \<Rightarrow> freshness" where
  "classify now cachedResponse =
     (if cachedResponse \<noteq> None \<and> \<not> isStale now (the cachedResponse) then Fresh
      else if cachedResponse \<noteq> None then Stale else Absent)"

text \<open>
  The call each cacheable path makes to its fetcher with the key it computed, and the
  outcomes of an origin call that count as failure: \<^verbatim>\<open>fetch\<close> throws (a network error,
  or the abort raised by the timeout), the reply is not \<^verbatim>\<open>ok\<close>, or its body does not
  parse. \<open>isAbort\<close> is the test of the \<^verbatim>\<open>catch\<close> block, \<open>abortSeen\<close> says whether the error
  that reaches the \<^verbatim>\<open>catch\<close> block passes it, and \<open>errorMessage\<close> reads the \<^verbatim>\<open>error\<close> field
  of an error body.
\<close>

datatype originCall =
    ProductCall ProductRequestBody
  | CartCall CartRequestBody
  | StorefrontCall StorefrontRequestBody
  | UpsellCall UpsellRequestBody
  | HandleCall string string

definition fetchFromOrigin ::
    "platform \<Rightarrow> Env \<Rightarrow> originCall \<Rightarrow> key \<Rightarrow> CachedResponse option \<Rightarrow> io \<Rightarrow> worker
      \<Rightarrow> Response \<times> worker" where
  "fetchFromOrigin pf env call cacheKey =
     (case call of
        ProductCall body \<Rightarrow> fetchProductFromOrigin pf env body cacheKey
      | CartCall body \<Rightarrow> fetchCartFromOrigin pf env body cacheKey
      | StorefrontCall body \<Rightarrow> fetchStorefrontFromOrigin pf env body (Some cacheKey)
      | UpsellCall body \<Rightarrow> fetchUpsellFromOrigin pf env body cacheKey
      | HandleCall shop productHandle \<Rightarrow>
          fetchRecommendationsFromOrigin pf env shop productHandle cacheKey)"

definition isAbort :: "thrown \<Rightarrow> bool" where
  "isAbort err = (isError err \<and> str_includes (message err) ''abort'')"

definition originFailed :: "io \<Rightarrow> bool" where
  "originFailed io =
     (case originReply io of
        Threw err \<Rightarrow> True
      | Replied r \<Rightarrow> \<not> ok r \<or> isl (o_json r))"

definition abortSeen :: "io \<Rightarrow> bool" where
  "abortSeen io =
     (case originReply io of
        Threw err \<Rightarrow> isAbort err
      | Replied r \<Rightarrow> ok r \<and> (case o_json r of Inl err \<Rightarrow> isAbort err | Inr d \<Rightarrow> False))"

definition errorMessage :: "Response \<Rightarrow> string option" where
  "errorMessage r =
     (case r_body r of
        JsonBody (JObj fs) \<Rightarrow> (case map_of fs ''error'' of Some (JStr m) \<Rightarrow> Some m | _ \<Rightarrow> None)
      | _ \<Rightarrow> None)"

text \<open>What a read of the store yields once failures are absorbed.\<close>

definition readOrMiss :: "KVNamespace \<Rightarrow> key \<Rightarrow> CachedResponse option" where
  "readOrMiss kv k = (case kvGet kv k of Inl e \<Rightarrow> None | Inr cached \<Rightarrow> cached)"

text \<open>
  Two worker states that differ at most in the store, and fetchers whose answer and
  effects do not depend on the store's content.
\<close>

definition sameButCache :: "worker \<Rightarrow> worker \<Rightarrow> bool" where
  "sameButCache w1 w2 =
     (inFlightRequests w1 = inFlightRequests w2 \<and> kvReads w1 = kvReads w2
      \<and> kvWrites w1 = kvWrites w2 \<and> originCalls w1 = originCalls w2
      \<and> registered w1 = registered w2)"

definition cacheBlind :: "(CachedResponse option \<Rightarrow> io \<Rightarrow> worker \<Rightarrow> Response \<times> worker) \<Rightarrow> bool" where
  "cacheBlind f = (\<forall>stale io w1 w2. sameButCache w1 w2 \<longrightarrow>
      fst (f stale io w1) = fst (f stale io w2)
      \<and> sameButCache (snd (f stale io w1)) (snd (f stale io w2)))"

text \<open>
  The header sets of the answers: the permissive CORS headers, a response time, and the
  two shapes the response builders produce.
\<close>

definition hasCors :: "Response \<Rightarrow> bool" where
  "hasCors r =
     (header r ''Access-Control-Allow-Origin'' = Some ''*''
      \<and> header r ''Access-Control-Allow-Methods'' = Some ''GET, POST, OPTIONS''
      \<and> header r ''Access-Control-Allow-Headers'' = Some allowHeaders)"

definition hasResponseTime :: "Response \<Rightarrow> bool" where
  "hasResponseTime r = (header r ''X-Response-Time'' \<noteq> None)"

definition successShape :: "Response \<Rightarrow> bool" where
  "successShape r =
     (r_status r = 200
      \<and> header r ''X-Cache'' \<in> {Some ''HIT'', Some ''MISS'', Some ''STALE'', Some ''BYPASS''}
      \<and> hasResponseTime r \<and> hasCors r)"

definition errorShape :: "Response \<Rightarrow> bool" where
  "errorShape r =
     (r_status r \<in> {400, 405, 500, 503} \<and> header r ''X-Cache'' = None
      \<and> hasResponseTime r \<and> hasCors r)"

definition builtByWorker :: "Response \<Rightarrow> bool" where
  "builtByWorker r = (successShape r \<or> errorShape r)"

text \<open>
  The invariant of the transition system: an entry of the in-flight map names a promise
  of its key whose producer still awaits it; a pending promise is the entry of its key;
  a producer's promise is registered and has one producer; a request that returned
  after awaiting a promise holds that promise's response; every promise is one origin
  call. \<open>produce\<close> is the state after a call that found neither a fresh entry nor an
  in-flight one.
\<close>

definition registeredOk :: "coalescer \<Rightarrow> bool" where
  "registeredOk s = (\<forall>k p. inFlight s k = Some p \<longrightarrow>
      p < length (promises s) \<and> pr_key (promises s ! p) = k
      \<and> (\<exists>r. tasks s r = Some (AwaitingOwn k p)))"

definition pendingOk :: "coalescer \<Rightarrow> bool" where
  "pendingOk s = (\<forall>p. p < length (promises s) \<and> pr_state (promises s ! p) = None \<longrightarrow>
      inFlight s (pr_key (promises s ! p)) = Some p)"

definition ownersOk :: "coalescer \<Rightarrow> bool" where
  "ownersOk s = (\<forall>r k p. tasks s r = Some (AwaitingOwn k p) \<longrightarrow>
      inFlight s k = Some p \<and> (\<forall>r'. tasks s r' = Some (AwaitingOwn k p) \<longrightarrow> r' = r))"

definition returnedOk :: "coalescer \<Rightarrow> bool" where
  "returnedOk s = (\<forall>r p resp. tasks s r = Some (Returned (Some p) resp) \<longrightarrow>
      promiseState s p \<noteq> None \<and> (\<forall>x. promiseState s p = Some (Fulfilled x) \<longrightarrow> resp = x))"

definition callsOk :: "coalescer \<Rightarrow> bool" where
  "callsOk s = (originInvocations s = map pr_key (promises s))"

definition Inv :: "coalescer \<Rightarrow> bool" where
  "Inv s = (registeredOk s \<and> pendingOk s \<and> ownersOk s \<and> returnedOk s \<and> callsOk s)"

definition produce :: "nat \<Rightarrow> key \<Rightarrow> coalescer \<Rightarrow> coalescer" where
  "produce r k s =
     s\<lparr>promises := promises s @ [\<lparr>pr_key = k, pr_state = None\<rparr>],
       originInvocations := originInvocations s @ [k],
       inFlight := (inFlight s)(k \<mapsto> length (promises s)),
       tasks := (tasks s)(r \<mapsto> AwaitingOwn k (length (promises s)))\<rparr>"

subsection \<open>Statements of the specification\<close>

text \<open>
  The specification's table of per-endpoint freshness windows (in milliseconds) and the
  classification it describes: fresh iff \<open>now - writtenAt \<le> freshnessWindow\<close>, stale
  otherwise, absent when there is no entry.
\<close>

datatype endpoint =
    ProductRecommendation | CartRecommendation | StorefrontCartRules | UpsellFunnel
  | HandleRecommendation

fun specFreshnessWindow :: "endpoint \<Rightarrow> int" where
  "specFreshnessWindow ProductRecommendation = 60 * 60 * 1000"
| "specFreshnessWindow CartRecommendation = 60 * 60 * 1000"
| "specFreshnessWindow StorefrontCartRules = 5 * 60 * 1000"
| "specFreshnessWindow UpsellFunnel = 30 * 60 * 1000"
| "specFreshnessWindow HandleRecommendation = 10 * 60 * 1000"

definition specClassify :: "endpoint \<Rightarrow> int \<Rightarrow> CachedResponse option \<Rightarrow> freshness" where
  "specClassify e now entry =
     (case entry of None \<Rightarrow> Absent
      | Some c \<Rightarrow> if now - cr_timestamp c \<le> specFreshnessWindow e then Fresh else Stale)"

text \<open>
  The projection of a storefront request that the specification names as the only input
  of its key: the shop, the cart's token, total and item count, and per line item the
  variant id, quantity and properties, sorted by variant id.
\<close>

definition storefrontKeyProjection ::
    "StorefrontRequestBody \<Rightarrow>
       string option \<times> (json \<times> json \<times> json \<times> (int \<times> json \<times> json) list option) option" where
  "storefrontKeyProjection body =
     (s_shop body,
      map_option (\<lambda>c. (token c, total_price c, item_count c,
                        map_option (\<lambda>its. sort_key fst
                                      (map (\<lambda>i. (variant_id i, quantity i, properties i)) its))
                          (items c)))
        (s_cart body))"

subsection \<open>Concrete inputs\<close>

text \<open>
  A platform on which the definitions can be evaluated: a plain serializer without
  escaping, the identity in place of the digest and of the collation key, and a
  \<^verbatim>\<open>parseInt\<close> that always answers \<open>NaN\<close>. The theorems below hold for every platform; this
  one only instantiates them.
\<close>

fun showJson :: "json \<Rightarrow> string" where
  "showJson JUndefined = ''undefined''"
| "showJson JNull = ''null''"
| "showJson (JBool b) = (if b then ''true'' else ''false'')"
| "showJson (JNum i) = numberToString i"
| "showJson JNaN = ''null''"
| "showJson (JStr s) = [CHR 0x22] @ s @ [CHR 0x22]"
| "showJson (JArr xs) = ''['' @ concat (map (\<lambda>x. showJson x @ '','') xs) @ '']''"
| "showJson (JObj fs) = ''{'' @ concat (map (\<lambda>(k, v). k @ '':'' @ showJson v @ '','') fs) @ ''}''"

definition samplePlatform :: platform where
  "samplePlatform = \<lparr>stringify = showJson, digest = (\<lambda>s. s), parseInt = (\<lambda>s. JNaN),
                      collationKey = (\<lambda>s. s)\<rparr>"


definition networkError :: thrown where
  "networkError = \<lparr>isError = True, message = ''Network connection lost.''\<rparr>"

text \<open>Sample bodies, environment, store, worker, clock, entry, reply and requests.\<close>

definition sampleProduct :: ProductRequestBody where
  "sampleProduct = \<lparr>p_shop = ''s.myshopify.com'', p_productId = Some ''123'', p_productHandle = None,
     p_type = ''cart'', p_layout = None, p_limit = None, p_excludeProductIds = None,
     p_cartToken = None\<rparr>"

definition sampleCart :: CartRequestBody where
  "sampleCart = \<lparr>c_shop = Some ''s.myshopify.com'', c_type = Some ''cart'', c_products = None,
     c_layout = None, c_limit = None, c_cartToken = None\<rparr>"

definition sampleItem :: "int \<Rightarrow> int \<Rightarrow> json \<Rightarrow> lineItem" where
  "sampleItem v q rest = \<lparr>variant_id = v, quantity = JNum q, properties = JNull, item_rest = rest\<rparr>"

definition sampleStorefront :: "lineItem list \<Rightarrow> json \<Rightarrow> string option \<Rightarrow> StorefrontRequestBody" where
  "sampleStorefront its rest v =
     \<lparr>s_cart = Some \<lparr>token = JStr ''tok'', total_price = JNum 2500, item_count = JNum 2,
                      items = Some its, cart_rest = rest\<rparr>,
      s_shop = Some ''s.myshopify.com'', s_actionType = None, s_variantId = v,
      s_attribute = None\<rparr>"

definition actionBody :: "string \<Rightarrow> StorefrontRequestBody" where
  "actionBody a = (sampleStorefront [] JNull None)\<lparr>s_actionType := Some a\<rparr>"

definition sampleEnv :: Env where
  "sampleEnv = \<lparr>ORIGIN_URL = ''https://api.magicsell.ai'',
                THINK_ORIGIN_URL = ''https://think.magicsell.ai''\<rparr>"

definition storeWith :: "(key \<times> stored \<times> nat) list \<Rightarrow> KVNamespace" where
  "storeWith kvs = \<lparr>kv_entries = map_of kvs, kv_reachable = True\<rparr>"

definition unreachableStore :: "(key \<times> stored \<times> nat) list \<Rightarrow> KVNamespace" where
  "unreachableStore kvs = \<lparr>kv_entries = map_of kvs, kv_reachable = False\<rparr>"

definition idleWorker :: "KVNamespace \<Rightarrow> worker" where
  "idleWorker kv = \<lparr>CACHE = kv, inFlightRequests = Map.empty, kvReads = [], kvWrites = [],
                     originCalls = [], registered = []\<rparr>"

definition sampleIo :: "int \<Rightarrow> originOutcome \<Rightarrow> io" where
  "sampleIo t reply = \<lparr>startTime = t, nowStale = t + 2, nowWrite = t + 40, nowResponse = t + 41,
                        originReply = reply\<rparr>"

definition sampleEntry :: "int \<Rightarrow> CachedResponse" where
  "sampleEntry t = \<lparr>cr_data = JObj [(''products'', JArr [])], cr_timestamp = t,
                     cr_etag = Some ''abc''\<rparr>"

definition sampleReply :: originOutcome where
  "sampleReply = Replied \<lparr>o_status = 200, o_etag = Some ''e1'',
                           o_json = Inr (JObj [(''products'', JArr [])])\<rparr>"

definition emptyRequest :: Request where
  "emptyRequest = \<lparr>req_method = ''GET'', req_pathname = ''/'', req_searchParams = [],
                    req_cartJson = None, req_storefrontJson = None, req_upsellJson = None\<rparr>"

definition storefrontRequest :: "StorefrontRequestBody \<Rightarrow> Request" where
  "storefrontRequest b = emptyRequest\<lparr>req_method := ''POST'', req_pathname := ''/api/storefront'',
                                       req_storefrontJson := Some b\<rparr>"

definition productRequest :: "(string \<times> string) list \<Rightarrow> Request" where
  "productRequest q = emptyRequest\<lparr>req_pathname := ''/api/v2/recommendation/product'',
                                    req_searchParams := q\<rparr>"

definition sampleQuery :: "(string \<times> string) list" where
  "sampleQuery = [(''shop'', ''s.myshopify.com''), (''productId'', ''123''), (''type'', ''cart'')]"

text \<open>A schedule: three calls for one key, the third with a stale entry.\<close>

definition sampleResponse :: Response where
  "sampleResponse = createSuccessResponse (JObj [(''products'', JArr [])]) MISS
                      (sampleIo 0 sampleReply) (Some ''e1'')"

definition threeCalls :: "event list" where
  "threeCalls = [Arrive 1 ''k'' None (sampleIo 0 sampleReply),
                 Arrive 2 ''k'' None (sampleIo 5 sampleReply),
                 Arrive 3 ''k'' (Some (sampleEntry (- 4000000))) (sampleIo 9 sampleReply)]"

section \<open>Properties\<close>

subsection \<open>Decimal rendering and sorting\<close>

text \<open>\<open>numberToString\<close> is injective: \<open>readNumber\<close> reads every rendering back.\<close>

lemma digitVal_digitChar: "d < 10 \<Longrightarrow> digitVal (digitChar d) = d"
  by (simp add: digitVal_def digitChar_def)

lemma decimalVal_snoc: "decimalVal (s @ [c]) = 10 * decimalVal s + digitVal c"
  by (simp add: decimalVal_def)

lemma decimalVal_digits: "decimalVal (digits n) = n"
proof (induction n rule: digits.induct)
  case (1 n)
  show ?case
  proof (cases "n < 10")
    case True
    then show ?thesis
      by (subst digits.simps) (simp add: decimalVal_def digitVal_digitChar)
  next
    case False
    with 1 show ?thesis
      by (subst digits.simps) (simp add: decimalVal_snoc digitVal_digitChar)
  qed
qed

lemma digits_not_Nil: "digits n \<noteq> []"
  by (subst digits.simps) simp

lemma of_char_digitChar: "d < 10 \<Longrightarrow> of_char (digitChar d) = 48 + d"
  by (simp add: digitChar_def)

lemma digitChar_not_minus: "d < 10 \<Longrightarrow> digitChar d \<noteq> CHR ''-''"
proof
  assume d: "d < 10" and e: "digitChar d = CHR ''-''"
  have "(of_char (digitChar d) :: nat) = of_char (CHR ''-'')" using e by simp
  then show False using d by (simp add: of_char_digitChar)
qed

lemma set_digits: "c \<in> set (digits n) \<Longrightarrow> \<exists>d<10. c = digitChar d"
proof (induction n rule: digits.induct)
  case (1 n)
  show ?case
  proof (cases "n < 10")
    case True
    with 1(2) show ?thesis by (subst (asm) digits.simps) auto
  next
    case False
    have "c \<in> set (digits (n div 10)) \<or> c = digitChar (n mod 10)"
      using 1(2) False by (subst (asm) digits.simps) auto
    then show ?thesis
    proof
      assume "c \<in> set (digits (n div 10))"
      with 1(1) False show ?thesis by simp
    next
      assume "c = digitChar (n mod 10)"
      moreover have "n mod 10 < 10" by simp
      ultimately show ?thesis by blast
    qed
  qed
qed

lemma hd_digits_not_minus: "hd (digits n) \<noteq> CHR ''-''"
proof -
  have "hd (digits n) \<in> set (digits n)" by (simp add: digits_not_Nil)
  then obtain d where "d < 10" "hd (digits n) = digitChar d" using set_digits by blast
  then show ?thesis by (simp add: digitChar_not_minus)
qed

lemma readNumber_numberToString: "readNumber (numberToString i) = i"
proof (cases "i < 0")
  case True
  then show ?thesis by (simp add: readNumber_def numberToString_def decimalVal_digits)
next
  case False
  obtain c cs where d: "digits (nat i) = c # cs" using digits_not_Nil by (cases "digits (nat i)") auto
  then have "c \<noteq> CHR ''-''" using hd_digits_not_minus [of "nat i"] by simp
  moreover have "decimalVal (c # cs) = nat i" using decimalVal_digits [of "nat i"] d by simp
  ultimately show ?thesis using False d by (simp add: readNumber_def numberToString_def)
qed

lemma inj_numberToString: "inj numberToString"
  by (rule inj_on_inverseI [where g = readNumber]) (rule readNumber_numberToString)

text \<open>Sorting forgets the order of its input.\<close>

lemma sort_mset_cong: "mset xs = mset ys \<Longrightarrow> sort xs = sort ys"
  by (rule properties_for_sort) simp_all

lemma filter_eq_replicate: "filter (\<lambda>x. k = x) zs = replicate (count (mset zs) k) k"
  by (induction zs) auto

lemma sort_key_inj_mset_cong:
  assumes "inj f" and "mset xs = mset ys"
  shows "sort_key f xs = sort_key f ys"
proof (rule properties_for_sort_key)
  show "mset (sort_key f ys) = mset xs" using assms(2) by simp
  show "sorted (map f (sort_key f ys))" by simp
  fix k assume "k \<in> set (sort_key f ys)"
  have eq: "(\<lambda>x. f k = f x) = (\<lambda>x. k = x)" using assms(1) by (auto simp: inj_def)
  have "mset (sort_key f ys) = mset xs" using assms(2) by simp
  then show "filter (\<lambda>x. f k = f x) (sort_key f ys) = filter (\<lambda>x. f k = f x) xs"
    unfolding eq filter_eq_replicate by simp
qed

subsection \<open>Cache keys\<close>

text \<open>
  Claim C5. Two product requests that differ only in the order of \<^verbatim>\<open>excludeProductIds\<close>,
  and two cart requests that differ only in the order of \<^verbatim>\<open>products\<close>, get the same
  cache key: the generators sort the collection before serializing it.
\<close>

theorem cache_key_ignores_submission_order:
  "(mset ys = mset xs \<longrightarrow>
      generateProductCacheKey pf (A\<lparr>p_excludeProductIds := Some ys\<rparr>)
      = generateProductCacheKey pf (A\<lparr>p_excludeProductIds := Some xs\<rparr>))
   \<and> (mset qs = mset ps \<longrightarrow>
      generateCartCacheKey pf (B\<lparr>c_products := Some qs\<rparr>)
      = generateCartCacheKey pf (B\<lparr>c_products := Some ps\<rparr>))"
  by (simp add: generateProductCacheKey_def generateCartCacheKey_def
        sort_mset_cong [of ys xs] sort_key_inj_mset_cong [OF inj_numberToString, of qs ps])

theorem cache_key_ignores_submission_order_witness:
  "mset [''3'', ''2'', ''1''] = mset [''1'', ''2'', ''3'']
   \<and> generateProductCacheKey samplePlatform (sampleProduct\<lparr>p_excludeProductIds := Some [''3'', ''2'', ''1'']\<rparr>)
     = generateProductCacheKey samplePlatform (sampleProduct\<lparr>p_excludeProductIds := Some [''1'', ''2'', ''3'']\<rparr>)
   \<and> mset [10, 9, 1 :: int] = mset [1, 9, 10]
   \<and> generateCartCacheKey samplePlatform (sampleCart\<lparr>c_products := Some [10, 9, 1]\<rparr>)
     = generateCartCacheKey samplePlatform (sampleCart\<lparr>c_products := Some [1, 9, 10]\<rparr>)"
proof -
  have m1: "mset [''3'', ''2'', ''1''] = mset [''1'', ''2'', ''3'']" by simp
  have m2: "mset [10, 9, 1 :: int] = mset [1, 9, 10]" by simp
  show ?thesis
    using m1 m2
      cache_key_ignores_submission_order [of "[''3'', ''2'', ''1'']" "[''1'', ''2'', ''3'']"
        samplePlatform sampleProduct "[10, 9, 1]" "[1, 9, 10]" sampleCart]
    by blast
qed

lemma insort_key_map_comp:
  "insort_key f (g x) (map g xs) = map g (insort_key (\<lambda>x. f (g x)) x xs)"
  by (induction xs) simp_all

lemma sort_key_map_comp: "sort_key f (map g xs) = map g (sort_key (\<lambda>x. f (g x)) xs)"
  by (induction xs) (simp_all add: insort_key_map_comp)

lemma keyItems_projection:
  "keyItems its = map (\<lambda>(v, q, p). \<lparr>k_id = v, k_quantity = q, k_properties = p\<rparr>)
     (sort_key fst (map (\<lambda>i. (variant_id i, quantity i, properties i)) its))"
  by (simp add: keyItems_def sort_key_map_comp keyItem_def comp_def)

lemma storefront_key_via_projection:
  "generateStorefrontCacheKey pf body =
     (case storefrontKeyProjection body of (shop, c) \<Rightarrow>
        hashKey pf ''storefront_''
          (JObj [(''shop'', optStr shop),
                 (''cartToken'', (case c of None \<Rightarrow> JUndefined | Some (t, tp, ic, its) \<Rightarrow> t)),
                 (''cartTotal'', (case c of None \<Rightarrow> JUndefined | Some (t, tp, ic, its) \<Rightarrow> tp)),
                 (''itemCount'', (case c of None \<Rightarrow> JUndefined | Some (t, tp, ic, its) \<Rightarrow> ic)),
                 (''items'',
                    (case c of None \<Rightarrow> JUndefined
                     | Some (t, tp, ic, its) \<Rightarrow>
                         (case its of None \<Rightarrow> JUndefined
                          | Some l \<Rightarrow> JArr (map keyedItemJson
                              (map (\<lambda>(v, q, p). \<lparr>k_id = v, k_quantity = q, k_properties = p\<rparr>)
                                 l)))))]))"
  by (simp add: generateStorefrontCacheKey_def storefrontKeyProjection_def keyItems_projection
        split: option.splits)

text \<open>
  Claim C10. The storefront key is a function of the shop and of the projection of the
  cart onto token, total price, item count and, per line item, variant id, quantity and
  properties in variant-id order: two requests with the same projection get the same
  key, whatever their \<^verbatim>\<open>variantId\<close>, \<^verbatim>\<open>attribute\<close>, \<^verbatim>\<open>actionType\<close> or other cart fields are.
\<close>

theorem storefront_key_depends_on_projection:
  "storefrontKeyProjection A = storefrontKeyProjection B
   \<Longrightarrow> generateStorefrontCacheKey pf A = generateStorefrontCacheKey pf B"
  by (simp only: storefront_key_via_projection)

theorem storefront_key_depends_on_projection_witness:
  "storefrontKeyProjection
      (sampleStorefront [sampleItem 7 1 JNull, sampleItem 3 2 JNull] JNull None)
   = storefrontKeyProjection
      (sampleStorefront [sampleItem 3 2 (JStr ''gift''), sampleItem 7 1 JNull]
         (JObj [(''note'', JStr ''hello'')]) (Some ''41''))
   \<and> generateStorefrontCacheKey samplePlatform
        (sampleStorefront [sampleItem 7 1 JNull, sampleItem 3 2 JNull] JNull None)
     = generateStorefrontCacheKey samplePlatform
        (sampleStorefront [sampleItem 3 2 (JStr ''gift''), sampleItem 7 1 JNull]
           (JObj [(''note'', JStr ''hello'')]) (Some ''41''))"
proof -
  have p: "storefrontKeyProjection
      (sampleStorefront [sampleItem 7 1 JNull, sampleItem 3 2 JNull] JNull None)
   = storefrontKeyProjection
      (sampleStorefront [sampleItem 3 2 (JStr ''gift''), sampleItem 7 1 JNull]
         (JObj [(''note'', JStr ''hello'')]) (Some ''41''))"
    by (simp add: storefrontKeyProjection_def sampleStorefront_def sampleItem_def)
  from p storefront_key_depends_on_projection [OF p, of samplePlatform] show ?thesis by simp
qed

subsection \<open>Staleness\<close>

lemma classify_eq:
  "classify now entry =
     (case entry of None \<Rightarrow> Absent
      | Some c \<Rightarrow> if now - cr_timestamp c \<le> 3600000 then Fresh else Stale)"
  by (auto simp: classify_def isStale_def ONE_HOUR_def split: option.splits)

lemma serveCached_fresh:
  assumes "kvGet (CACHE w) k = Inr (Some c)" and "nowStale io - cr_timestamp c \<le> 3600000"
  shows "serveCached k f io w
         = (createSuccessResponse (cr_data c) HIT io (cr_etag c), w\<lparr>kvReads := kvReads w @ [k]\<rparr>)"
  using assms by (simp add: serveCached_def getCachedResponse_def isStale_def ONE_HOUR_def)

lemma originTry_originCalls:
  "originCalls (snd (originTry pf tm ttl wk tag stale io w)) = originCalls w"
  by (simp add: originTry_def cachePut_def Let_def split: originOutcome.splits option.splits sum.splits)

lemma originTry_kvWrites_success:
  assumes "originReply io = Replied r" and "ok r" and "o_json r = Inr d"
  shows "kvWrites (snd (originTry pf tm ttl (Some k) tag stale io w)) = kvWrites w @ [(k, ttl)]"
  using assms by (simp add: originTry_def cachePut_def Let_def)

text \<open>
  Claim C2, as the code has it. Every handler classifies with the same \<open>isStale\<close>: an
  entry is fresh iff \<open>now - timestamp \<le> 3 600 000\<close> ms (one hour) and stale otherwise, on
  every endpoint; an absent entry is a third case. This agrees with the specification's
  table for the product and cart endpoints. Every cacheable path answers a fresh
  entry as a hit and hands a stale or absent one to its fetcher as the fallback. The
  table's other values are the \<^verbatim>\<open>expirationTtl\<close> of the store write: 3600 s for product and
  cart, 300 s for storefront, 1800 s for upsell, 600 s for handle recommendations.
\<close>

theorem staleness_is_one_hour_for_every_endpoint:
  "classify now entry =
     (case entry of None \<Rightarrow> Absent
      | Some c \<Rightarrow> if now - cr_timestamp c \<le> 3600000 then Fresh else Stale)
   \<and> classify now entry = specClassify ProductRecommendation now entry
   \<and> classify now entry = specClassify CartRecommendation now entry
   \<and> (kvGet (CACHE w) k = Inr (Some c) \<and> nowStale io - cr_timestamp c \<le> 3600000
        \<longrightarrow> fst (serveCached k f io w) = createSuccessResponse (cr_data c) HIT io (cr_etag c))
   \<and> (kvGet (CACHE w) k = Inr (Some c) \<and> nowStale io - cr_timestamp c > 3600000
          \<and> inFlightRequests w k = None
        \<longrightarrow> fst (serveCached k f io w) = fst (f (Some c) io (w\<lparr>kvReads := kvReads w @ [k]\<rparr>)))
   \<and> (kvGet (CACHE w) k = Inr None \<and> inFlightRequests w k = None
        \<longrightarrow> fst (serveCached k f io w) = fst (f None io (w\<lparr>kvReads := kvReads w @ [k]\<rparr>)))
   \<and> (originReply io = Replied r \<and> ok r \<and> o_json r = Inr d \<longrightarrow>
        kvWrites (snd (fetchProductFromOrigin pf env pb k stale io w)) = kvWrites w @ [(k, 3600)]
      \<and> kvWrites (snd (fetchCartFromOrigin pf env cb k stale io w)) = kvWrites w @ [(k, 3600)]
      \<and> (k \<noteq> [] \<and> \<not> truthy (s_actionType sb) \<longrightarrow>
           kvWrites (snd (fetchStorefrontFromOrigin pf env sb (Some k) stale io w))
           = kvWrites w @ [(k, 300)])
      \<and> kvWrites (snd (fetchUpsellFromOrigin pf env ub k stale io w)) = kvWrites w @ [(k, 1800)]
      \<and> kvWrites (snd (fetchRecommendationsFromOrigin pf env shop handle k stale io w))
           = kvWrites w @ [(k, 600)])"
proof -
  have c: "classify now entry =
     (case entry of None \<Rightarrow> Absent
      | Some c \<Rightarrow> if now - cr_timestamp c \<le> 3600000 then Fresh else Stale)"
    by (rule classify_eq)
  have p: "classify now entry = specClassify ProductRecommendation now entry"
    by (simp add: classify_eq specClassify_def split: option.splits)
  have q: "classify now entry = specClassify CartRecommendation now entry"
    by (simp add: classify_eq specClassify_def split: option.splits)
  have h1: "kvGet (CACHE w) k = Inr (Some c) \<and> nowStale io - cr_timestamp c \<le> 3600000
        \<longrightarrow> fst (serveCached k f io w) = createSuccessResponse (cr_data c) HIT io (cr_etag c)"
    by (simp add: serveCached_fresh)
  have h2: "kvGet (CACHE w) k = Inr (Some c) \<and> nowStale io - cr_timestamp c > 3600000
          \<and> inFlightRequests w k = None
        \<longrightarrow> fst (serveCached k f io w) = fst (f (Some c) io (w\<lparr>kvReads := kvReads w @ [k]\<rparr>))"
    by (simp add: serveCached_def getCachedResponse_def isStale_def ONE_HOUR_def split_beta)
  have h3: "kvGet (CACHE w) k = Inr None \<and> inFlightRequests w k = None
        \<longrightarrow> fst (serveCached k f io w) = fst (f None io (w\<lparr>kvReads := kvReads w @ [k]\<rparr>))"
    by (simp add: serveCached_def getCachedResponse_def split_beta)
  have t: "originReply io = Replied r \<and> ok r \<and> o_json r = Inr d \<longrightarrow>
        kvWrites (snd (fetchProductFromOrigin pf env pb k stale io w)) = kvWrites w @ [(k, 3600)]
      \<and> kvWrites (snd (fetchCartFromOrigin pf env cb k stale io w)) = kvWrites w @ [(k, 3600)]
      \<and> (k \<noteq> [] \<and> \<not> truthy (s_actionType sb) \<longrightarrow>
           kvWrites (snd (fetchStorefrontFromOrigin pf env sb (Some k) stale io w))
           = kvWrites w @ [(k, 300)])
      \<and> kvWrites (snd (fetchUpsellFromOrigin pf env ub k stale io w)) = kvWrites w @ [(k, 1800)]
      \<and> kvWrites (snd (fetchRecommendationsFromOrigin pf env shop handle k stale io w))
           = kvWrites w @ [(k, 600)]"
    by (simp add: fetchProductFromOrigin_def fetchCartFromOrigin_def fetchStorefrontFromOrigin_def
          fetchUpsellFromOrigin_def fetchRecommendationsFromOrigin_def
          originTry_kvWrites_success send_def truthy_def)
  from c p q h1 h2 h3 t show ?thesis by blast
qed

theorem staleness_is_one_hour_for_every_endpoint_witness:
  "classify 360000 (Some (sampleEntry 0)) = Fresh
   \<and> classify 3600001 (Some (sampleEntry 0)) = Stale
   \<and> fst (serveCached ''k''
         (fetchStorefrontFromOrigin samplePlatform sampleEnv (sampleStorefront [] JNull None)
            (Some ''k''))
         (sampleIo 359998 sampleReply)
         (idleWorker (storeWith [(''k'', Valid (sampleEntry 0), 300)])))
     = createSuccessResponse (cr_data (sampleEntry 0)) HIT (sampleIo 359998 sampleReply)
         (cr_etag (sampleEntry 0))
   \<and> kvWrites (snd (fetchStorefrontFromOrigin samplePlatform sampleEnv
         (sampleStorefront [] JNull None) (Some ''k'') None (sampleIo 359998 sampleReply)
         (idleWorker (storeWith [])))) = [(''k'', 300)]"
proof -
  have g: "kvGet (CACHE (idleWorker (storeWith [(''k'', Valid (sampleEntry 0), 300)]))) ''k''
           = Inr (Some (sampleEntry 0))"
    by (simp add: idleWorker_def storeWith_def kvGet_def)
  have n: "nowStale (sampleIo 359998 sampleReply) - cr_timestamp (sampleEntry 0) \<le> 3600000"
    by (simp add: sampleIo_def sampleEntry_def)
  have o: "originReply (sampleIo 359998 sampleReply)
           = Replied \<lparr>o_status = 200, o_etag = Some ''e1'',
                       o_json = Inr (JObj [(''products'', JArr [])])\<rparr>"
    "ok \<lparr>o_status = 200, o_etag = Some ''e1'', o_json = Inr (JObj [(''products'', JArr [])])\<rparr>"
    by (simp_all add: sampleIo_def sampleReply_def ok_def)
  have a: "\<not> truthy (s_actionType (sampleStorefront [] JNull None))"
    by (simp add: sampleStorefront_def truthy_def)
  show ?thesis
    using g n o a
      staleness_is_one_hour_for_every_endpoint
        [where now = 360000 and entry = "Some (sampleEntry 0)"
           and io = "sampleIo 359998 sampleReply"
           and w = "idleWorker (storeWith [(''k'', Valid (sampleEntry 0), 300)])" and k = "''k''"
           and c = "sampleEntry 0"
           and f = "fetchStorefrontFromOrigin samplePlatform sampleEnv
                      (sampleStorefront [] JNull None) (Some ''k'')"]
      staleness_is_one_hour_for_every_endpoint
        [where now = 3600001 and entry = "Some (sampleEntry 0)"
           and io = "sampleIo 359998 sampleReply" and w = "idleWorker (storeWith [])"
           and k = "''k''"
           and r = "\<lparr>o_status = 200, o_etag = Some ''e1'',
                      o_json = Inr (JObj [(''products'', JArr [])])\<rparr>"
           and d = "JObj [(''products'', JArr [])]" and pf = samplePlatform and env = sampleEnv
           and sb = "sampleStorefront [] JNull None" and stale = None]
    by (simp add: sampleEntry_def idleWorker_def)
qed

text \<open>
  Claim C2 as stated fails on the storefront endpoint: six minutes after the write the
  specification's five-minute window calls the entry stale, while \<open>isStale\<close> does not,
  and the storefront handler answers it as a hit.
\<close>

theorem storefront_entry_after_five_minutes_counterexample:
  "specClassify StorefrontCartRules 360000 (Some (sampleEntry 0)) = Stale
   \<and> \<not> isStale 360000 (sampleEntry 0)
   \<and> classify 360000 (Some (sampleEntry 0)) = Fresh
   \<and> fst (handleStorefrontRequest samplePlatform sampleEnv (sampleIo 359998 sampleReply)
        (idleWorker (storeWith
           [(generateStorefrontCacheKey samplePlatform (sampleStorefront [] JNull None),
             Valid (sampleEntry 0), 300)]))
        (storefrontRequest (sampleStorefront [] JNull None)))
     = createSuccessResponse (cr_data (sampleEntry 0)) HIT (sampleIo 359998 sampleReply)
         (cr_etag (sampleEntry 0))"
proof -
  have a: "specClassify StorefrontCartRules 360000 (Some (sampleEntry 0)) = Stale"
    by (simp add: specClassify_def sampleEntry_def)
  have b: "\<not> isStale 360000 (sampleEntry 0)"
    by (simp add: isStale_def ONE_HOUR_def sampleEntry_def)
  have c: "classify 360000 (Some (sampleEntry 0)) = Fresh"
    by (simp add: classify_eq sampleEntry_def)
  have p: "parseStorefrontRequestBody (storefrontRequest (sampleStorefront [] JNull None))
           = Some (sampleStorefront [] JNull None)"
    by (simp add: parseStorefrontRequestBody_def storefrontRequest_def emptyRequest_def
          sampleStorefront_def truthy_def)
  have d: "fst (handleStorefrontRequest samplePlatform sampleEnv (sampleIo 359998 sampleReply)
        (idleWorker (storeWith
           [(generateStorefrontCacheKey samplePlatform (sampleStorefront [] JNull None),
             Valid (sampleEntry 0), 300)]))
        (storefrontRequest (sampleStorefront [] JNull None)))
     = createSuccessResponse (cr_data (sampleEntry 0)) HIT (sampleIo 359998 sampleReply)
         (cr_etag (sampleEntry 0))"
    unfolding handleStorefrontRequest_def p
    by (simp add: storefrontRequest_def emptyRequest_def Let_def truthy_def
          serveCached_fresh [where c = "sampleEntry 0"] idleWorker_def storeWith_def kvGet_def
          sampleIo_def sampleEntry_def)
       (simp add: sampleStorefront_def)
  from a b c d show ?thesis by blast
qed

subsection \<open>Origin failure\<close>

lemma str_includes_hd: "str_includes s (c # p) \<Longrightarrow> c \<in> set s"
  by (induction s) auto

lemma digitChar_not_a: "d < 10 \<Longrightarrow> digitChar d \<noteq> CHR ''a''"
proof
  assume d: "d < 10" and e: "digitChar d = CHR ''a''"
  have "(of_char (digitChar d) :: nat) = of_char (CHR ''a'')" using e by simp
  then show False using d by (simp add: of_char_digitChar)
qed

lemma status_text_no_abort: "\<not> str_includes (numberToString (int n)) ''abort''"
proof
  assume "str_includes (numberToString (int n)) ''abort''"
  then have "CHR ''a'' \<in> set (numberToString (int n))"
    using str_includes_hd [of _ "CHR ''a''" "''bort''"] by simp
  then have "CHR ''a'' \<in> set (digits n)" by (simp add: numberToString_def)
  then obtain d where "d < 10" "CHR ''a'' = digitChar d" using set_digits by blast
  then show False using digitChar_not_a [of d] by simp
qed

lemma originTry_failed:
  assumes "originFailed io"
  shows "originTry pf tm ttl wk tag stale io w =
     ((case stale of
         Some c \<Rightarrow> createSuccessResponse (cr_data c) STALE io (cr_etag c)
       | None \<Rightarrow> createErrorResponse (if abortSeen io then tm else ''Origin unavailable'') 503 io),
      w)"
  using assms
  by (auto simp: originFailed_def abortSeen_def originTry_def originCatch_def isAbort_def
        status_text_no_abort split: originOutcome.splits option.splits sum.splits)


lemma success_fields:
  "r_status (createSuccessResponse d tag io e) = 200"
  "r_body (createSuccessResponse d tag io e) = JsonBody d"
  "header (createSuccessResponse d tag io e) ''X-Cache'' = Some (cacheStatusText tag)"
  by (simp_all add: createSuccessResponse_def header_def)

lemma error_fields:
  "r_status (createErrorResponse m st io) = st"
  "errorMessage (createErrorResponse m st io) = Some m"
  "header (createErrorResponse m st io) ''X-Cache'' = None"
  by (simp_all add: createErrorResponse_def header_def errorMessage_def corsHeaders_def)



subsection \<open>Cache hits\<close>

lemma product_hit:
  assumes "req_method req = ''GET''"
      and "parseProductQueryParams pf req = Some body"
      and "kvGet (CACHE w) (generateProductCacheKey pf body) = Inr (Some c)"
      and "nowStale io - cr_timestamp c \<le> 3600000"
  shows "handleProductRecommendation pf env io w req
         = (createSuccessResponse (cr_data c) HIT io (cr_etag c),
            w\<lparr>kvReads := kvReads w @ [generateProductCacheKey pf body]\<rparr>)"
  using assms by (simp add: handleProductRecommendation_def Let_def serveCached_fresh)


lemma parse_sampleQuery:
  "parseProductQueryParams samplePlatform (productRequest sampleQuery) = Some sampleProduct"
  by (simp add: parseProductQueryParams_def productRequest_def emptyRequest_def sampleQuery_def
        truthy_def sampleProduct_def orUndefined_def Let_def)

lemma parse_sampleQuery_cartToken:
  "parseProductQueryParams samplePlatform (productRequest (sampleQuery @ [(''cartToken'', t)]))
   = Some (sampleProduct\<lparr>p_cartToken := orUndefined (Some t)\<rparr>)"
  by (simp add: parseProductQueryParams_def productRequest_def emptyRequest_def sampleQuery_def
        truthy_def sampleProduct_def orUndefined_def Let_def)


lemma fetchProduct_originCalls:
  "originCalls (snd (fetchProductFromOrigin pf env body k stale io w))
   = originCalls w @ [\<lparr>o_url = ORIGIN_URL env @ ''/api/v2/recommendation/product'',
              o_query = productParams body,
              o_method = ''GET'',
              o_headerNames = [''Accept'', ''User-Agent''] @ cfAccessHeaderNames (ORIGIN_URL env),
              o_body = NoOriginBody\<rparr>]"
  by (simp add: fetchProductFromOrigin_def originTry_originCalls send_def)

text \<open>
  Claim C9. The product key does not depend on \<^verbatim>\<open>cartToken\<close>; the token is nevertheless
  sent to the origin on a miss; so an entry stored for one cart token is answered as a
  hit to a request that carries another.
\<close>

theorem product_key_ignores_cartToken:
  "generateProductCacheKey pf (b\<lparr>p_cartToken := t\<rparr>) = generateProductCacheKey pf b
   \<and> (truthy t \<longrightarrow>
        (''cartToken'', the t) \<in> set (o_query (last (originCalls
           (snd (fetchProductFromOrigin pf env (b\<lparr>p_cartToken := t\<rparr>) k stale io w))))))
   \<and> (req_method req = ''GET''
        \<and> parseProductQueryParams pf req = Some (b\<lparr>p_cartToken := t\<rparr>)
        \<and> kvGet (CACHE w) (generateProductCacheKey pf b) = Inr (Some c)
        \<and> nowStale io - cr_timestamp c \<le> 3600000
      \<longrightarrow> fst (handleProductRecommendation pf env io w req)
          = createSuccessResponse (cr_data c) HIT io (cr_etag c))"
proof -
  have k: "generateProductCacheKey pf (b\<lparr>p_cartToken := t\<rparr>) = generateProductCacheKey pf b"
    by (simp add: generateProductCacheKey_def)
  have q: "truthy t \<longrightarrow>
        (''cartToken'', the t) \<in> set (o_query (last (originCalls
           (snd (fetchProductFromOrigin pf env (b\<lparr>p_cartToken := t\<rparr>) k stale io w)))))"
    by (simp add: fetchProduct_originCalls productParams_def optParam_def)
  have h: "req_method req = ''GET''
        \<and> parseProductQueryParams pf req = Some (b\<lparr>p_cartToken := t\<rparr>)
        \<and> kvGet (CACHE w) (generateProductCacheKey pf b) = Inr (Some c)
        \<and> nowStale io - cr_timestamp c \<le> 3600000
      \<longrightarrow> fst (handleProductRecommendation pf env io w req)
          = createSuccessResponse (cr_data c) HIT io (cr_etag c)"
  proof (intro impI, elim conjE)
    assume a: "req_method req = ''GET''"
      "parseProductQueryParams pf req = Some (b\<lparr>p_cartToken := t\<rparr>)"
      "kvGet (CACHE w) (generateProductCacheKey pf b) = Inr (Some c)"
      "nowStale io - cr_timestamp c \<le> 3600000"
    from a(3) have g: "kvGet (CACHE w) (generateProductCacheKey pf (b\<lparr>p_cartToken := t\<rparr>))
                       = Inr (Some c)" by (simp only: k)
    show "fst (handleProductRecommendation pf env io w req)
          = createSuccessResponse (cr_data c) HIT io (cr_etag c)"
      by (simp add: product_hit [OF a(1) a(2) g a(4)])
  qed
  from k q h show ?thesis by blast
qed

theorem product_key_ignores_cartToken_witness:
  "generateProductCacheKey samplePlatform (sampleProduct\<lparr>p_cartToken := Some ''tokB''\<rparr>)
     = generateProductCacheKey samplePlatform sampleProduct
   \<and> (''cartToken'', ''tokB'') \<in> set (o_query (last (originCalls
         (snd (fetchProductFromOrigin samplePlatform sampleEnv
                 (sampleProduct\<lparr>p_cartToken := Some ''tokB''\<rparr>) ''k'' None
                 (sampleIo 1000 sampleReply) (idleWorker (storeWith [])))))))
   \<and> fst (handleProductRecommendation samplePlatform sampleEnv (sampleIo 1000 sampleReply)
        (idleWorker (storeWith [(generateProductCacheKey samplePlatform sampleProduct,
                                 Valid (sampleEntry 0), 3600)]))
        (productRequest (sampleQuery @ [(''cartToken'', ''tokB'')])))
     = createSuccessResponse (JObj [(''products'', JArr [])]) HIT (sampleIo 1000 sampleReply)
         (Some ''abc'')"
proof -
  have m: "req_method (productRequest (sampleQuery @ [(''cartToken'', ''tokB'')])) = ''GET''"
    by (simp add: productRequest_def emptyRequest_def)
  have p: "parseProductQueryParams samplePlatform
             (productRequest (sampleQuery @ [(''cartToken'', ''tokB'')]))
           = Some (sampleProduct\<lparr>p_cartToken := Some ''tokB''\<rparr>)"
    by (simp add: parse_sampleQuery_cartToken orUndefined_def truthy_def)
  have g: "kvGet (CACHE (idleWorker (storeWith [(generateProductCacheKey samplePlatform sampleProduct,
                               Valid (sampleEntry 0), 3600)])))
             (generateProductCacheKey samplePlatform sampleProduct) = Inr (Some (sampleEntry 0))"
    by (simp add: idleWorker_def storeWith_def kvGet_def)
  have t: "nowStale (sampleIo 1000 sampleReply) - cr_timestamp (sampleEntry 0) \<le> 3600000"
    by (simp add: sampleIo_def sampleEntry_def)
  have tr: "truthy (Some ''tokB'')" by (simp add: truthy_def)
  show ?thesis
    using m p g t tr
      product_key_ignores_cartToken [where pf = samplePlatform and b = sampleProduct
        and t = "Some ''tokB''" and env = sampleEnv and k = "''k''" and stale = None
        and io = "sampleIo 1000 sampleReply" and w = "idleWorker (storeWith [])"
        and req = "productRequest (sampleQuery @ [(''cartToken'', ''tokB'')])"
        and c = "sampleEntry 0"]
      product_key_ignores_cartToken [where pf = samplePlatform and b = sampleProduct
        and t = "Some ''tokB''" and env = sampleEnv and k = "''k''" and stale = None
        and io = "sampleIo 1000 sampleReply"
        and w = "idleWorker (storeWith [(generateProductCacheKey samplePlatform sampleProduct,
                               Valid (sampleEntry 0), 3600)])"
        and req = "productRequest (sampleQuery @ [(''cartToken'', ''tokB'')])"
        and c = "sampleEntry 0"]
    by (simp add: sampleEntry_def)
qed

subsection \<open>Action bypass\<close>

lemma originTry_no_write:
  "snd (originTry pf tm ttl None tag stale io w) = w"
  by (simp add: originTry_def Let_def split: originOutcome.splits option.splits sum.splits)

lemma originTry_success_tag:
  assumes "\<not> originFailed io"
  shows "r_status (fst (originTry pf tm ttl wk tag None io w)) = 200
       \<and> header (fst (originTry pf tm ttl wk tag None io w)) ''X-Cache'' = Some (cacheStatusText tag)"
  using assms
  by (auto simp: originFailed_def originTry_def Let_def success_fields
        split: originOutcome.splits sum.splits)

lemma originTry_none_status:
  "r_status (fst (originTry pf tm ttl wk tag None io w)) = 200 \<longleftrightarrow> \<not> originFailed io"
  by (cases "originFailed io")
     (simp_all add: originTry_failed error_fields originTry_success_tag)

lemma storefront_action:
  assumes "req_method req = ''POST''"
      and "parseStorefrontRequestBody req = Some body"
      and "truthy (s_actionType body)"
  shows "handleStorefrontRequest pf env io w req = fetchStorefrontFromOrigin pf env body None None io w"
  using assms by (simp add: handleStorefrontRequest_def)

text \<open>
  Claim C4, as the code has it. A storefront request whose \<^verbatim>\<open>actionType\<close> is a non-empty
  string reads nothing from the store, registers nothing in the in-flight map, writes
  nothing (the store is unchanged), sends exactly one request to the origin, and is
  answered with \<^verbatim>\<open>X-Cache: BYPASS\<close> whenever the answer is a success, which it is
  whenever the origin call does not fail.
\<close>

theorem action_request_bypasses_cache:
  assumes "req_method req = ''POST''"
      and "parseStorefrontRequestBody req = Some body"
      and "truthy (s_actionType body)"
  shows "kvReads (snd (handleStorefrontRequest pf env io w req)) = kvReads w
       \<and> registered (snd (handleStorefrontRequest pf env io w req)) = registered w
       \<and> inFlightRequests (snd (handleStorefrontRequest pf env io w req)) = inFlightRequests w
       \<and> kvWrites (snd (handleStorefrontRequest pf env io w req)) = kvWrites w
       \<and> CACHE (snd (handleStorefrontRequest pf env io w req)) = CACHE w
       \<and> length (originCalls (snd (handleStorefrontRequest pf env io w req)))
           = length (originCalls w) + 1
       \<and> (r_status (fst (handleStorefrontRequest pf env io w req)) = 200
            \<longleftrightarrow> \<not> originFailed io)
       \<and> (r_status (fst (handleStorefrontRequest pf env io w req)) = 200 \<longrightarrow>
            header (fst (handleStorefrontRequest pf env io w req)) ''X-Cache'' = Some ''BYPASS'')"
  unfolding storefront_action [OF assms]
  by (simp add: fetchStorefrontFromOrigin_def originTry_no_write truthy_def send_def
        originTry_none_status originTry_success_tag)

lemma parse_actionBody:
  "parseStorefrontRequestBody (storefrontRequest (actionBody a)) = Some (actionBody a)"
  by (simp add: parseStorefrontRequestBody_def storefrontRequest_def emptyRequest_def
        actionBody_def sampleStorefront_def truthy_def)

theorem action_request_bypasses_cache_witness:
  "truthy (s_actionType (actionBody ''addFreeGift''))
   \<and> kvReads (snd (handleStorefrontRequest samplePlatform sampleEnv (sampleIo 0 sampleReply)
        (idleWorker (storeWith [])) (storefrontRequest (actionBody ''addFreeGift'')))) = []
   \<and> registered (snd (handleStorefrontRequest samplePlatform sampleEnv (sampleIo 0 sampleReply)
        (idleWorker (storeWith [])) (storefrontRequest (actionBody ''addFreeGift'')))) = []
   \<and> kvWrites (snd (handleStorefrontRequest samplePlatform sampleEnv (sampleIo 0 sampleReply)
        (idleWorker (storeWith [])) (storefrontRequest (actionBody ''addFreeGift'')))) = []
   \<and> r_status (fst (handleStorefrontRequest samplePlatform sampleEnv (sampleIo 0 sampleReply)
        (idleWorker (storeWith [])) (storefrontRequest (actionBody ''addFreeGift'')))) = 200
   \<and> header (fst (handleStorefrontRequest samplePlatform sampleEnv (sampleIo 0 sampleReply)
        (idleWorker (storeWith [])) (storefrontRequest (actionBody ''addFreeGift''))))
        ''X-Cache'' = Some ''BYPASS''"
proof -
  have m: "req_method (storefrontRequest (actionBody ''addFreeGift'')) = ''POST''"
    by (simp add: storefrontRequest_def emptyRequest_def)
  have t: "truthy (s_actionType (actionBody ''addFreeGift''))"
    by (simp add: actionBody_def truthy_def)
  have o: "\<not> originFailed (sampleIo 0 sampleReply)"
    by (simp add: originFailed_def sampleIo_def sampleReply_def ok_def)
  show ?thesis
    using t o action_request_bypasses_cache [OF m parse_actionBody t, of samplePlatform sampleEnv
        "sampleIo 0 sampleReply" "idleWorker (storeWith [])"]
    by (simp add: idleWorker_def)
qed

text \<open>
  Claim C4 as stated fails when \<^verbatim>\<open>actionType\<close> is set to the empty string: the guard
  \<^verbatim>\<open>!body.actionType\<close> sends the request down the cached path, which reads the store,
  registers the key, writes the entry and tags the answer \<^verbatim>\<open>MISS\<close>.
\<close>

theorem empty_action_type_is_cached_counterexample:
  "s_actionType (actionBody '''') = Some ''''
   \<and> kvReads (snd (handleStorefrontRequest samplePlatform sampleEnv (sampleIo 0 sampleReply)
        (idleWorker (storeWith [])) (storefrontRequest (actionBody ''''))))
      = [generateStorefrontCacheKey samplePlatform (actionBody '''')]
   \<and> registered (snd (handleStorefrontRequest samplePlatform sampleEnv (sampleIo 0 sampleReply)
        (idleWorker (storeWith [])) (storefrontRequest (actionBody ''''))))
      = [generateStorefrontCacheKey samplePlatform (actionBody '''')]
   \<and> kvWrites (snd (handleStorefrontRequest samplePlatform sampleEnv (sampleIo 0 sampleReply)
        (idleWorker (storeWith [])) (storefrontRequest (actionBody ''''))))
      = [(generateStorefrontCacheKey samplePlatform (actionBody ''''), 300)]
   \<and> header (fst (handleStorefrontRequest samplePlatform sampleEnv (sampleIo 0 sampleReply)
        (idleWorker (storeWith [])) (storefrontRequest (actionBody ''''))))
        ''X-Cache'' = Some ''MISS''"
proof -
  have k: "generateStorefrontCacheKey samplePlatform (actionBody '''') \<noteq> []"
    by (simp add: generateStorefrontCacheKey_def hashKey_def)
  have t: "\<not> truthy (s_actionType (actionBody ''''))"
    by (simp add: actionBody_def truthy_def)
  have a: "s_actionType (actionBody '''') = Some ''''"
    by (simp add: actionBody_def)
  have h: "handleStorefrontRequest samplePlatform sampleEnv (sampleIo 0 sampleReply)
        (idleWorker (storeWith [])) (storefrontRequest (actionBody ''''))
      = serveCached (generateStorefrontCacheKey samplePlatform (actionBody ''''))
          (fetchStorefrontFromOrigin samplePlatform sampleEnv (actionBody '''')
             (Some (generateStorefrontCacheKey samplePlatform (actionBody ''''))))
          (sampleIo 0 sampleReply) (idleWorker (storeWith []))"
    by (simp add: handleStorefrontRequest_def parse_actionBody t Let_def)
       (simp add: storefrontRequest_def emptyRequest_def)
  show ?thesis
    unfolding h
    using k t a
    by (simp add: serveCached_def getCachedResponse_def idleWorker_def storeWith_def kvGet_def
          fetchStorefrontFromOrigin_def originTry_def sampleIo_def sampleReply_def ok_def
          truthy_def send_def cachePut_def Let_def success_fields)
qed

subsection \<open>Store read failures\<close>

lemma originTry_sameButCache:
  assumes "sameButCache w1 w2"
  shows "fst (originTry pf tm ttl wk tag stale io w1) = fst (originTry pf tm ttl wk tag stale io w2)
       \<and> sameButCache (snd (originTry pf tm ttl wk tag stale io w1))
                      (snd (originTry pf tm ttl wk tag stale io w2))"
  using assms
  by (auto simp: originTry_def sameButCache_def cachePut_def Let_def
        split: originOutcome.splits option.splits sum.splits)

lemma send_sameButCache: "sameButCache w1 w2 \<Longrightarrow> sameButCache (send rq w1) (send rq w2)"
  by (simp add: sameButCache_def send_def)

lemma cacheBlind_fetchers:
  "cacheBlind (fetchProductFromOrigin pf env pb k)"
  "cacheBlind (fetchCartFromOrigin pf env cb k)"
  "cacheBlind (fetchStorefrontFromOrigin pf env sb ko)"
  "cacheBlind (fetchUpsellFromOrigin pf env ub k)"
  "cacheBlind (fetchRecommendationsFromOrigin pf env shop handle k)"
  by (simp_all add: cacheBlind_def fetchProductFromOrigin_def fetchCartFromOrigin_def
        fetchStorefrontFromOrigin_def fetchUpsellFromOrigin_def fetchRecommendationsFromOrigin_def
        originTry_sameButCache send_sameButCache)

lemma serveCached_sameButCache:
  assumes "sameButCache w1 w2" and "readOrMiss (CACHE w1) k = readOrMiss (CACHE w2) k"
      and "cacheBlind f"
  shows "fst (serveCached k f io w1) = fst (serveCached k f io w2)
       \<and> sameButCache (snd (serveCached k f io w1)) (snd (serveCached k f io w2))"
proof -
  let ?c = "readOrMiss (CACHE w2) k"
  let ?v1 = "w1\<lparr>kvReads := kvReads w1 @ [k]\<rparr>" and ?v2 = "w2\<lparr>kvReads := kvReads w2 @ [k]\<rparr>"
  have g1: "getCachedResponse w1 k = (?c, ?v1)"
    using assms(2) by (simp add: getCachedResponse_def readOrMiss_def)
  have g2: "getCachedResponse w2 k = (?c, ?v2)"
    by (simp add: getCachedResponse_def readOrMiss_def)
  have s: "sameButCache ?v1 ?v2" using assms(1) by (simp add: sameButCache_def)
  then have i: "inFlightRequests ?v1 = inFlightRequests ?v2" by (simp add: sameButCache_def)
  have f: "fst (f ?c io ?v1) = fst (f ?c io ?v2)
           \<and> sameButCache (snd (f ?c io ?v1)) (snd (f ?c io ?v2))"
    using assms(3) s unfolding cacheBlind_def by blast
  show ?thesis
    unfolding serveCached_def g1 g2
    using s f i
    by (auto simp: Let_def sameButCache_def split_beta split: option.splits settled.splits)
qed

lemma handlers_sameButCache:
  assumes "sameButCache w1 w2" and "\<forall>k. readOrMiss (CACHE w1) k = readOrMiss (CACHE w2) k"
  shows "fst (handleProductRecommendation pf env io w1 req)
           = fst (handleProductRecommendation pf env io w2 req)
         \<and> sameButCache (snd (handleProductRecommendation pf env io w1 req))
                        (snd (handleProductRecommendation pf env io w2 req))"
    and "fst (handleCartRecommendation pf env io w1 req)
           = fst (handleCartRecommendation pf env io w2 req)
         \<and> sameButCache (snd (handleCartRecommendation pf env io w1 req))
                        (snd (handleCartRecommendation pf env io w2 req))"
    and "fst (handleStorefrontRequest pf env io w1 req)
           = fst (handleStorefrontRequest pf env io w2 req)
         \<and> sameButCache (snd (handleStorefrontRequest pf env io w1 req))
                        (snd (handleStorefrontRequest pf env io w2 req))"
    and "fst (handleUpsellRequest pf env io w1 req)
           = fst (handleUpsellRequest pf env io w2 req)
         \<and> sameButCache (snd (handleUpsellRequest pf env io w1 req))
                        (snd (handleUpsellRequest pf env io w2 req))"
    and "fst (handleThinkRecommendations pf env io w1 req)
           = fst (handleThinkRecommendations pf env io w2 req)
         \<and> sameButCache (snd (handleThinkRecommendations pf env io w1 req))
                        (snd (handleThinkRecommendations pf env io w2 req))"
proof -
  note sc = serveCached_sameButCache [OF assms(1) assms(2) [rule_format]]
  have bl: "\<And>sb ko. fst (fetchStorefrontFromOrigin pf env sb ko None io w1)
                 = fst (fetchStorefrontFromOrigin pf env sb ko None io w2)
            \<and> sameButCache (snd (fetchStorefrontFromOrigin pf env sb ko None io w1))
                 (snd (fetchStorefrontFromOrigin pf env sb ko None io w2))"
    using cacheBlind_fetchers(3) assms(1) unfolding cacheBlind_def by blast
  show "fst (handleProductRecommendation pf env io w1 req)
           = fst (handleProductRecommendation pf env io w2 req)
         \<and> sameButCache (snd (handleProductRecommendation pf env io w1 req))
                        (snd (handleProductRecommendation pf env io w2 req))"
    using assms(1)
    by (simp add: handleProductRecommendation_def Let_def sc cacheBlind_fetchers
          split: option.splits)
  show "fst (handleCartRecommendation pf env io w1 req)
           = fst (handleCartRecommendation pf env io w2 req)
         \<and> sameButCache (snd (handleCartRecommendation pf env io w1 req))
                        (snd (handleCartRecommendation pf env io w2 req))"
    using assms(1)
    by (simp add: handleCartRecommendation_def Let_def sc cacheBlind_fetchers
          split: option.splits)
  show "fst (handleStorefrontRequest pf env io w1 req)
           = fst (handleStorefrontRequest pf env io w2 req)
         \<and> sameButCache (snd (handleStorefrontRequest pf env io w1 req))
                        (snd (handleStorefrontRequest pf env io w2 req))"
    using assms(1)
    by (simp add: handleStorefrontRequest_def Let_def sc cacheBlind_fetchers bl
          split: option.splits)
  show "fst (handleUpsellRequest pf env io w1 req)
           = fst (handleUpsellRequest pf env io w2 req)
         \<and> sameButCache (snd (handleUpsellRequest pf env io w1 req))
                        (snd (handleUpsellRequest pf env io w2 req))"
    using assms(1)
    by (simp add: handleUpsellRequest_def Let_def sc cacheBlind_fetchers
          split: option.splits)
  show "fst (handleThinkRecommendations pf env io w1 req)
           = fst (handleThinkRecommendations pf env io w2 req)
         \<and> sameButCache (snd (handleThinkRecommendations pf env io w1 req))
                        (snd (handleThinkRecommendations pf env io w2 req))"
    using assms(1)
    by (simp add: handleThinkRecommendations_def Let_def sc cacheBlind_fetchers
          split: option.splits)
qed

lemma fetch_sameButCache:
  assumes "sameButCache w1 w2" and "\<forall>k. readOrMiss (CACHE w1) k = readOrMiss (CACHE w2) k"
  shows "fst (fetch pf env io w1 req) = fst (fetch pf env io w2 req)
       \<and> sameButCache (snd (fetch pf env io w1 req)) (snd (fetch pf env io w2 req))"
  using assms(1)
  by (simp add: fetch_def Let_def handlers_sameButCache [OF assms])

lemma readOrMiss_of_failure:
  assumes "\<forall>k. kvGet kv1 k = kvGet kv2 k \<or> (isl (kvGet kv1 k) \<and> kvGet kv2 k = Inr None)"
  shows "readOrMiss kv1 k = readOrMiss kv2 k"
  using assms [rule_format, of k] by (auto simp: readOrMiss_def isl_def)

text \<open>
  Claim C7. A read that fails (store unreachable, or corrupt payload under the key)
  yields no entry; and a request served from a store whose reads fail is answered
  exactly as it is from a store that has no entry where the first one fails: same
  response, same in-flight map, same origin requests, same writes scheduled.
\<close>

theorem store_read_failure_is_a_miss:
  assumes "\<forall>k. kvGet kv1 k = kvGet kv2 k \<or> (isl (kvGet kv1 k) \<and> kvGet kv2 k = Inr None)"
  shows "(isl (kvGet kv1 k) \<longrightarrow> fst (getCachedResponse (w\<lparr>CACHE := kv1\<rparr>) k) = None)
       \<and> fst (fetch pf env io (w\<lparr>CACHE := kv1\<rparr>) req) = fst (fetch pf env io (w\<lparr>CACHE := kv2\<rparr>) req)
       \<and> inFlightRequests (snd (fetch pf env io (w\<lparr>CACHE := kv1\<rparr>) req))
           = inFlightRequests (snd (fetch pf env io (w\<lparr>CACHE := kv2\<rparr>) req))
       \<and> originCalls (snd (fetch pf env io (w\<lparr>CACHE := kv1\<rparr>) req))
           = originCalls (snd (fetch pf env io (w\<lparr>CACHE := kv2\<rparr>) req))
       \<and> kvWrites (snd (fetch pf env io (w\<lparr>CACHE := kv1\<rparr>) req))
           = kvWrites (snd (fetch pf env io (w\<lparr>CACHE := kv2\<rparr>) req))"
proof -
  have s: "sameButCache (w\<lparr>CACHE := kv1\<rparr>) (w\<lparr>CACHE := kv2\<rparr>)" by (simp add: sameButCache_def)
  have r: "\<forall>k. readOrMiss (CACHE (w\<lparr>CACHE := kv1\<rparr>)) k = readOrMiss (CACHE (w\<lparr>CACHE := kv2\<rparr>)) k"
    using readOrMiss_of_failure [OF assms] by simp
  have g: "isl (kvGet kv1 k) \<longrightarrow> fst (getCachedResponse (w\<lparr>CACHE := kv1\<rparr>) k) = None"
    by (auto simp: getCachedResponse_def isl_def)
  from fetch_sameButCache [OF s r, of pf env io req] g show ?thesis
    by (simp add: sameButCache_def)
qed

theorem store_read_failure_is_a_miss_witness:
  "fst (fetch samplePlatform sampleEnv (sampleIo 1000 sampleReply)
         ((idleWorker (storeWith []))\<lparr>CACHE := unreachableStore [(''k'', Valid (sampleEntry 0), 3600)]\<rparr>)
         (productRequest sampleQuery))
   = fst (fetch samplePlatform sampleEnv (sampleIo 1000 sampleReply)
         ((idleWorker (storeWith []))\<lparr>CACHE := storeWith []\<rparr>) (productRequest sampleQuery))
   \<and> fst (fetch samplePlatform sampleEnv (sampleIo 1000 (Threw networkError))
         ((idleWorker (storeWith []))\<lparr>CACHE := storeWith
             [(generateProductCacheKey samplePlatform sampleProduct, Corrupt, 3600)]\<rparr>)
         (productRequest sampleQuery))
   = fst (fetch samplePlatform sampleEnv (sampleIo 1000 (Threw networkError))
         ((idleWorker (storeWith []))\<lparr>CACHE := storeWith []\<rparr>) (productRequest sampleQuery))
   \<and> header (fst (fetch samplePlatform sampleEnv (sampleIo 1000 sampleReply)
         ((idleWorker (storeWith []))\<lparr>CACHE := unreachableStore [(''k'', Valid (sampleEntry 0), 3600)]\<rparr>)
         (productRequest sampleQuery))) ''X-Cache'' = Some ''MISS''"
proof -
  have m: "header (fst (fetch samplePlatform sampleEnv (sampleIo 1000 sampleReply)
         ((idleWorker (storeWith []))\<lparr>CACHE := unreachableStore [(''k'', Valid (sampleEntry 0), 3600)]\<rparr>)
         (productRequest sampleQuery))) ''X-Cache'' = Some ''MISS''"
    by (simp add: fetch_def Let_def productRequest_def emptyRequest_def
          handleProductRecommendation_def
          parse_sampleQuery [unfolded productRequest_def emptyRequest_def, simplified]
          serveCached_def getCachedResponse_def kvGet_def unreachableStore_def idleWorker_def
          storeWith_def fetchProductFromOrigin_def originTry_def sampleIo_def sampleReply_def
          ok_def truthy_def send_def cachePut_def success_fields)
  have h1: "\<forall>k. kvGet (unreachableStore [(''k'', Valid (sampleEntry 0), 3600)]) k = kvGet (storeWith []) k
        \<or> (isl (kvGet (unreachableStore [(''k'', Valid (sampleEntry 0), 3600)]) k)
            \<and> kvGet (storeWith []) k = Inr None)"
    by (simp add: kvGet_def unreachableStore_def storeWith_def)
  have h2: "\<forall>k. kvGet (storeWith [(generateProductCacheKey samplePlatform sampleProduct, Corrupt, 3600)]) k
          = kvGet (storeWith []) k
        \<or> (isl (kvGet (storeWith [(generateProductCacheKey samplePlatform sampleProduct, Corrupt, 3600)]) k)
            \<and> kvGet (storeWith []) k = Inr None)"
    by (simp add: kvGet_def storeWith_def)
  show ?thesis
    using store_read_failure_is_a_miss [OF h1, of "''k''" "idleWorker (storeWith [])" samplePlatform
        sampleEnv "sampleIo 1000 sampleReply" "productRequest sampleQuery"]
      store_read_failure_is_a_miss [OF h2, of "''k''" "idleWorker (storeWith [])" samplePlatform
        sampleEnv "sampleIo 1000 (Threw networkError)" "productRequest sampleQuery"]
      m
    by blast
qed

subsection \<open>Response headers\<close>

lemma successShape_create: "successShape (createSuccessResponse d tag io e)"
  by (cases tag)
     (simp_all add: successShape_def createSuccessResponse_def header_def hasCors_def
        hasResponseTime_def corsHeaders_def)

lemma errorShape_create:
  "st \<in> {400, 405, 500, 503} \<Longrightarrow> errorShape (createErrorResponse m st io)"
  by (simp add: errorShape_def createErrorResponse_def header_def hasCors_def
        hasResponseTime_def corsHeaders_def)

lemma builtByWorker_originTry: "builtByWorker (fst (originTry pf tm ttl wk tag stale io w))"
  by (simp add: originTry_def originCatch_def Let_def builtByWorker_def successShape_create
        errorShape_create split: originOutcome.splits option.splits sum.splits)

lemma builtByWorker_serveCached:
  assumes "\<forall>k r. inFlightRequests w k = Some (Fulfilled r) \<longrightarrow> builtByWorker r"
      and "\<And>stale v. builtByWorker (fst (f stale io v))"
  shows "builtByWorker (fst (serveCached k f io w))"
  using assms
  by (auto simp: serveCached_def getCachedResponse_def Let_def split_beta builtByWorker_def
        successShape_create errorShape_create split: option.splits settled.splits)

lemma builtByWorker_handlers:
  assumes "\<forall>k r. inFlightRequests w k = Some (Fulfilled r) \<longrightarrow> builtByWorker r"
  shows "builtByWorker (fst (handleProductRecommendation pf env io w req))"
    and "builtByWorker (fst (handleCartRecommendation pf env io w req))"
    and "builtByWorker (fst (handleStorefrontRequest pf env io w req))"
    and "builtByWorker (fst (handleUpsellRequest pf env io w req))"
    and "builtByWorker (fst (handleThinkRecommendations pf env io w req))"
proof -
  note sc = builtByWorker_serveCached [OF assms]
  have e: "\<And>m st. st \<in> {400, 405, 500, 503} \<Longrightarrow> builtByWorker (createErrorResponse m st io)"
    by (simp add: builtByWorker_def errorShape_create)
  show "builtByWorker (fst (handleProductRecommendation pf env io w req))"
    by (simp add: handleProductRecommendation_def Let_def e sc fetchProductFromOrigin_def
          builtByWorker_originTry split: option.splits)
  show "builtByWorker (fst (handleCartRecommendation pf env io w req))"
    by (simp add: handleCartRecommendation_def Let_def e sc fetchCartFromOrigin_def
          builtByWorker_originTry split: option.splits)
  show "builtByWorker (fst (handleStorefrontRequest pf env io w req))"
    by (simp add: handleStorefrontRequest_def Let_def e sc fetchStorefrontFromOrigin_def
          builtByWorker_originTry split: option.splits)
  show "builtByWorker (fst (handleUpsellRequest pf env io w req))"
    by (simp add: handleUpsellRequest_def Let_def e sc fetchUpsellFromOrigin_def
          builtByWorker_originTry split: option.splits)
  show "builtByWorker (fst (handleThinkRecommendations pf env io w req))"
    by (simp add: handleThinkRecommendations_def Let_def e sc fetchRecommendationsFromOrigin_def
          builtByWorker_originTry split: option.splits)
qed

text \<open>
  Claim C6, as the code has it. Every answer of the dispatcher is one of four: a success
  (status 200 with \<^verbatim>\<open>X-Cache\<close> one of HIT, MISS, STALE, BYPASS, a response time and the CORS
  headers), an error built by \<open>createErrorResponse\<close> (status 400, 405, 500 or 503 with a
  response time and the CORS headers but no \<^verbatim>\<open>X-Cache\<close>), the preflight answer (CORS
  headers only) or the 404 for an unmatched path (none of the three). Responses joined
  from the in-flight map are those the fetchers built.
\<close>

theorem dispatcher_response_headers:
  assumes "\<forall>k r. inFlightRequests w k = Some (Fulfilled r) \<longrightarrow> successShape r \<or> errorShape r"
  shows "(fst (fetch pf env io w req) = notFound \<or> fst (fetch pf env io w req) = preflight
          \<or> successShape (fst (fetch pf env io w req)) \<or> errorShape (fst (fetch pf env io w req)))
       \<and> header notFound ''X-Cache'' = None \<and> header notFound ''X-Response-Time'' = None
       \<and> header notFound ''Access-Control-Allow-Origin'' = None
       \<and> header preflight ''X-Cache'' = None \<and> header preflight ''X-Response-Time'' = None
       \<and> hasCors preflight"
proof -
  have a: "\<forall>k r. inFlightRequests w k = Some (Fulfilled r) \<longrightarrow> builtByWorker r"
    using assms by (simp add: builtByWorker_def)
  have "fst (fetch pf env io w req) = notFound \<or> fst (fetch pf env io w req) = preflight
        \<or> builtByWorker (fst (fetch pf env io w req))"
    by (simp add: fetch_def Let_def builtByWorker_handlers [OF a])
  moreover have "header notFound ''X-Cache'' = None \<and> header notFound ''X-Response-Time'' = None
       \<and> header notFound ''Access-Control-Allow-Origin'' = None
       \<and> header preflight ''X-Cache'' = None \<and> header preflight ''X-Response-Time'' = None
       \<and> hasCors preflight"
    by (simp add: notFound_def preflight_def header_def hasCors_def corsHeaders_def)
  ultimately show ?thesis by (auto simp: builtByWorker_def)
qed

theorem dispatcher_response_headers_witness:
  "fst (fetch samplePlatform sampleEnv (sampleIo 1000 sampleReply)
       ((idleWorker (storeWith []))\<lparr>inFlightRequests :=
          [generateProductCacheKey samplePlatform sampleProduct \<mapsto>
             Fulfilled (createSuccessResponse JNull MISS (sampleIo 0 sampleReply) None)]\<rparr>)
       (productRequest sampleQuery))
     = createSuccessResponse JNull MISS (sampleIo 0 sampleReply) None
   \<and> successShape (fst (fetch samplePlatform sampleEnv (sampleIo 1000 sampleReply)
       ((idleWorker (storeWith []))\<lparr>inFlightRequests :=
          [generateProductCacheKey samplePlatform sampleProduct \<mapsto>
             Fulfilled (createSuccessResponse JNull MISS (sampleIo 0 sampleReply) None)]\<rparr>)
       (productRequest sampleQuery)))
   \<and> hasCors preflight"
proof -
  let ?w = "(idleWorker (storeWith []))\<lparr>inFlightRequests :=
          [generateProductCacheKey samplePlatform sampleProduct \<mapsto>
             Fulfilled (createSuccessResponse JNull MISS (sampleIo 0 sampleReply) None)]\<rparr>"
  have h: "\<forall>k r. inFlightRequests ?w k = Some (Fulfilled r) \<longrightarrow> successShape r \<or> errorShape r"
    by (auto simp: successShape_create split: if_splits)
  have e: "fst (fetch samplePlatform sampleEnv (sampleIo 1000 sampleReply) ?w
             (productRequest sampleQuery))
           = createSuccessResponse JNull MISS (sampleIo 0 sampleReply) None"
    by (simp add: fetch_def Let_def productRequest_def emptyRequest_def
          handleProductRecommendation_def
          parse_sampleQuery [unfolded productRequest_def emptyRequest_def, simplified]
          serveCached_def getCachedResponse_def kvGet_def idleWorker_def storeWith_def)
  from e dispatcher_response_headers [OF h, of samplePlatform sampleEnv
      "sampleIo 1000 sampleReply" "productRequest sampleQuery"]
  show ?thesis by (simp add: successShape_create)
qed

text \<open>
  Claim C6 as stated fails on the answers that are not successes: the 404 for an
  unmatched path has no cache-status, response-time or CORS header, and an error built
  by \<open>createErrorResponse\<close> (here the 405 for a POST to the product endpoint) has no
  cache-status header.
\<close>

theorem error_responses_lack_cache_status_counterexample:
  "fst (fetch samplePlatform sampleEnv (sampleIo 0 sampleReply) (idleWorker (storeWith []))
          emptyRequest) = notFound
   \<and> header notFound ''X-Cache'' = None
   \<and> header notFound ''X-Response-Time'' = None
   \<and> header notFound ''Access-Control-Allow-Origin'' = None
   \<and> r_status (fst (fetch samplePlatform sampleEnv (sampleIo 0 sampleReply)
        (idleWorker (storeWith [])) ((productRequest sampleQuery)\<lparr>req_method := ''POST''\<rparr>))) = 405
   \<and> header (fst (fetch samplePlatform sampleEnv (sampleIo 0 sampleReply)
        (idleWorker (storeWith [])) ((productRequest sampleQuery)\<lparr>req_method := ''POST''\<rparr>)))
        ''X-Cache'' = None"
  by (simp add: fetch_def Let_def emptyRequest_def productRequest_def notFound_def header_def
        handleProductRecommendation_def error_fields [unfolded header_def])

subsection \<open>The coalescing invariant\<close>

lemma Inv_initial: "Inv initial"
  by (simp add: Inv_def initial_def registeredOk_def pendingOk_def ownersOk_def returnedOk_def
        callsOk_def)

lemma promiseState_simps [simp]:
  "promiseState (s\<lparr>tasks := t\<rparr>) p = promiseState s p"
  "promiseState (s\<lparr>inFlight := f\<rparr>) p = promiseState s p"
  "promiseState (s\<lparr>originInvocations := c\<rparr>) p = promiseState s p"
  by (simp_all add: promiseState_def)

lemma registeredOk_task:
  assumes "registeredOk s" and "tasks s r = None"
  shows "registeredOk (s\<lparr>tasks := (tasks s)(r \<mapsto> t)\<rparr>)"
  unfolding registeredOk_def
proof (intro allI impI)
  fix k p assume "inFlight (s\<lparr>tasks := (tasks s)(r \<mapsto> t)\<rparr>) k = Some p"
  then have i: "inFlight s k = Some p" by simp
  with assms(1) obtain r' where r': "p < length (promises s)" "pr_key (promises s ! p) = k"
      "tasks s r' = Some (AwaitingOwn k p)"
    unfolding registeredOk_def by blast
  with assms(2) have "r' \<noteq> r" by auto
  with r' show "p < length (promises (s\<lparr>tasks := (tasks s)(r \<mapsto> t)\<rparr>))
      \<and> pr_key (promises (s\<lparr>tasks := (tasks s)(r \<mapsto> t)\<rparr>) ! p) = k
      \<and> (\<exists>q. tasks (s\<lparr>tasks := (tasks s)(r \<mapsto> t)\<rparr>) q = Some (AwaitingOwn k p))"
    by auto
qed

lemma pendingOk_task: "pendingOk s \<Longrightarrow> pendingOk (s\<lparr>tasks := t\<rparr>)"
  by (simp add: pendingOk_def)

lemma ownersOk_task:
  assumes "ownersOk s" and "tasks s r = None" and "\<And>k p. t \<noteq> AwaitingOwn k p"
  shows "ownersOk (s\<lparr>tasks := (tasks s)(r \<mapsto> t)\<rparr>)"
  using assms unfolding ownersOk_def by auto

lemma returnedOk_task:
  assumes "returnedOk s" and "\<And>p resp. t \<noteq> Returned (Some p) resp"
  shows "returnedOk (s\<lparr>tasks := (tasks s)(r \<mapsto> t)\<rparr>)"
  using assms unfolding returnedOk_def by auto

lemma callsOk_task: "callsOk s \<Longrightarrow> callsOk (s\<lparr>tasks := t\<rparr>)"
  by (simp add: callsOk_def)

lemma Inv_task:
  assumes "Inv s" and "tasks s r = None" and "\<And>k p. t \<noteq> AwaitingOwn k p"
      and "\<And>p resp. t \<noteq> Returned (Some p) resp"
  shows "Inv (s\<lparr>tasks := (tasks s)(r \<mapsto> t)\<rparr>)"
  using assms
  by (simp add: Inv_def registeredOk_task pendingOk_task ownersOk_task returnedOk_task
        callsOk_task)

lemma produce_fields [simp]:
  "promises (produce r k s) = promises s @ [\<lparr>pr_key = k, pr_state = None\<rparr>]"
  "originInvocations (produce r k s) = originInvocations s @ [k]"
  "inFlight (produce r k s) = (inFlight s)(k \<mapsto> length (promises s))"
  "tasks (produce r k s) = (tasks s)(r \<mapsto> AwaitingOwn k (length (promises s)))"
  by (simp_all add: produce_def)

lemma registeredOk_produce:
  assumes "registeredOk s" and "tasks s r = None"
  shows "registeredOk (produce r k s)"
  unfolding registeredOk_def
proof (intro allI impI)
  fix k' p assume a: "inFlight (produce r k s) k' = Some p"
  show "p < length (promises (produce r k s)) \<and> pr_key (promises (produce r k s) ! p) = k'
        \<and> (\<exists>q. tasks (produce r k s) q = Some (AwaitingOwn k' p))"
  proof (cases "k' = k")
    case True
    with a have "p = length (promises s)" by simp
    with True show ?thesis by auto
  next
    case False
    with a have "inFlight s k' = Some p" by simp
    with assms(1) obtain r' where r': "p < length (promises s)" "pr_key (promises s ! p) = k'"
      "tasks s r' = Some (AwaitingOwn k' p)"
      unfolding registeredOk_def by blast
    with assms(2) have "r' \<noteq> r" by auto
    with r' show ?thesis by (auto simp: nth_append)
  qed
qed

lemma pendingOk_produce:
  assumes "pendingOk s" and "inFlight s k = None"
  shows "pendingOk (produce r k s)"
  unfolding pendingOk_def
proof (intro allI impI, elim conjE)
  fix p assume a: "p < length (promises (produce r k s))"
    "pr_state (promises (produce r k s) ! p) = None"
  show "inFlight (produce r k s) (pr_key (promises (produce r k s) ! p)) = Some p"
  proof (cases "p = length (promises s)")
    case True
    then show ?thesis by simp
  next
    case False
    with a have p: "p < length (promises s)" "pr_state (promises s ! p) = None"
      by (simp_all add: nth_append)
    with assms(1) have i: "inFlight s (pr_key (promises s ! p)) = Some p"
      unfolding pendingOk_def by blast
    with assms(2) have "pr_key (promises s ! p) \<noteq> k" by auto
    with i p show ?thesis by (simp add: nth_append)
  qed
qed

lemma ownersOk_produce:
  assumes "ownersOk s" and "tasks s r = None" and "inFlight s k = None"
  shows "ownersOk (produce r k s)"
  using assms unfolding ownersOk_def by auto

lemma promiseState_produce:
  "promiseState s p \<noteq> None \<Longrightarrow> promiseState (produce r k s) p = promiseState s p"
  by (auto simp: promiseState_def nth_append split: if_splits)

lemma returnedOk_produce:
  assumes "returnedOk s" and "tasks s r = None"
  shows "returnedOk (produce r k s)"
  unfolding returnedOk_def
proof (intro allI impI)
  fix r' p resp assume a: "tasks (produce r k s) r' = Some (Returned (Some p) resp)"
  then have "r' \<noteq> r" by auto
  with a have "tasks s r' = Some (Returned (Some p) resp)" by simp
  with assms(1) have b: "promiseState s p \<noteq> None"
      "\<forall>x. promiseState s p = Some (Fulfilled x) \<longrightarrow> resp = x"
    unfolding returnedOk_def by blast+
  then show "promiseState (produce r k s) p \<noteq> None
      \<and> (\<forall>x. promiseState (produce r k s) p = Some (Fulfilled x) \<longrightarrow> resp = x)"
    by (simp add: promiseState_produce)
qed

lemma callsOk_produce: "callsOk s \<Longrightarrow> callsOk (produce r k s)"
  by (simp add: callsOk_def)

lemma Inv_produce:
  assumes "Inv s" and "tasks s r = None" and "inFlight s k = None"
  shows "Inv (produce r k s)"
  using assms
  by (simp add: Inv_def registeredOk_produce pendingOk_produce ownersOk_produce
        returnedOk_produce callsOk_produce)

lemma arrive_cases:
  "arrive r k c io s =
     (if c \<noteq> None \<and> \<not> isStale (nowStale io) (the c)
      then s\<lparr>tasks := (tasks s)(r \<mapsto> Returned None
                (createSuccessResponse (cr_data (the c)) HIT io (cr_etag (the c))))\<rparr>
      else (case inFlight s k of
              Some q \<Rightarrow> s\<lparr>tasks := (tasks s)(r \<mapsto> AwaitingJoined q)\<rparr>
            | None \<Rightarrow> produce r k s))"
  by (simp add: arrive_def produce_def Let_def split: option.splits)

lemma Inv_arrive:
  assumes "Inv s" and "tasks s r = None"
  shows "Inv (arrive r k c io s)"
  using assms by (simp add: arrive_cases Inv_task Inv_produce split: option.splits)

text \<open>Settling a pending promise.\<close>

lemma settled_key:
  "q < length ps \<Longrightarrow> pr_key (ps[p := (ps ! p)\<lparr>pr_state := x\<rparr>] ! q) = pr_key (ps ! q)"
  by (cases "p = q") simp_all

lemma settled_state:
  "q < length ps \<Longrightarrow>
     pr_state (ps[p := (ps ! p)\<lparr>pr_state := x\<rparr>] ! q) = (if q = p then x else pr_state (ps ! q))"
  by (cases "p = q") simp_all

lemma Inv_settle:
  assumes "Inv s"
  shows "Inv (settle p out s)"
proof (cases "p < length (promises s) \<and> pr_state (promises s ! p) = None")
  case False
  with assms show ?thesis by (auto simp: settle_def)
next
  case True
  let ?s = "s\<lparr>promises := (promises s)[p := (promises s ! p)\<lparr>pr_state := Some out\<rparr>]\<rparr>"
  from True have e: "settle p out s = ?s" by (simp add: settle_def)
  from assms have a: "registeredOk s" "pendingOk s" "ownersOk s" "returnedOk s" "callsOk s"
    by (simp_all add: Inv_def)
  have "registeredOk ?s"
    unfolding registeredOk_def
  proof (intro allI impI)
    fix k q assume "inFlight ?s k = Some q"
    then have "inFlight s k = Some q" by simp
    with a(1) have "q < length (promises s)" "pr_key (promises s ! q) = k"
      "\<exists>r. tasks s r = Some (AwaitingOwn k q)"
      unfolding registeredOk_def by blast+
    then show "q < length (promises ?s) \<and> pr_key (promises ?s ! q) = k
        \<and> (\<exists>r. tasks ?s r = Some (AwaitingOwn k q))"
      by (simp add: settled_key)
  qed
  moreover have "pendingOk ?s"
    unfolding pendingOk_def
  proof (intro allI impI, elim conjE)
    fix q assume q: "q < length (promises ?s)" "pr_state (promises ?s ! q) = None"
    then have "q < length (promises s)" by simp
    moreover from this q(2) have "q \<noteq> p" "pr_state (promises s ! q) = None"
      by (auto simp: settled_state split: if_splits)
    ultimately have "inFlight s (pr_key (promises s ! q)) = Some q"
      using a(2) unfolding pendingOk_def by blast
    with \<open>q < length (promises s)\<close> show "inFlight ?s (pr_key (promises ?s ! q)) = Some q"
      by (simp add: settled_key)
  qed
  moreover have "ownersOk ?s"
    using a(3) unfolding ownersOk_def by simp
  moreover have "returnedOk ?s"
    unfolding returnedOk_def
  proof (intro allI impI)
    fix r q resp assume "tasks ?s r = Some (Returned (Some q) resp)"
    then have "tasks s r = Some (Returned (Some q) resp)" by simp
    with a(4) have b: "promiseState s q \<noteq> None"
      "\<forall>x. promiseState s q = Some (Fulfilled x) \<longrightarrow> resp = x"
      unfolding returnedOk_def by blast+
    from b(1) have l: "q < length (promises s)" "pr_state (promises s ! q) \<noteq> None"
      by (auto simp: promiseState_def split: if_splits)
    with True have "q \<noteq> p" by auto
    with l have "promiseState ?s q = promiseState s q"
      by (simp add: promiseState_def settled_state)
    with b show "promiseState ?s q \<noteq> None
        \<and> (\<forall>x. promiseState ?s q = Some (Fulfilled x) \<longrightarrow> resp = x)" by simp
  qed
  moreover have "callsOk ?s"
  proof -
    have "map pr_key ((promises s)[p := (promises s ! p)\<lparr>pr_state := Some out\<rparr>])
          = map pr_key (promises s)"
      by (rule nth_equalityI) (simp_all add: settled_key)
    with a(5) show ?thesis by (simp add: callsOk_def)
  qed
  ultimately show ?thesis unfolding e by (simp add: Inv_def)
qed

text \<open>Resuming after the awaited promise has settled.\<close>

lemma Inv_resume_join:
  assumes "Inv s" and "tasks s r = Some (AwaitingJoined p)" and "promiseState s p = Some out"
  shows "Inv (s\<lparr>tasks := (tasks s)(r \<mapsto> Returned (Some p) (delivered out io))\<rparr>)"
proof -
  let ?s = "s\<lparr>tasks := (tasks s)(r \<mapsto> Returned (Some p) (delivered out io))\<rparr>"
  from assms(1) have a: "registeredOk s" "pendingOk s" "ownersOk s" "returnedOk s" "callsOk s"
    by (simp_all add: Inv_def)
  have "registeredOk ?s"
    unfolding registeredOk_def
  proof (intro allI impI)
    fix k q assume "inFlight ?s k = Some q"
    then have "inFlight s k = Some q" by simp
    with a(1) obtain r' where r': "q < length (promises s)" "pr_key (promises s ! q) = k"
      "tasks s r' = Some (AwaitingOwn k q)"
      unfolding registeredOk_def by blast
    with assms(2) have "r' \<noteq> r" by auto
    with r' show "q < length (promises ?s) \<and> pr_key (promises ?s ! q) = k
        \<and> (\<exists>r. tasks ?s r = Some (AwaitingOwn k q))" by auto
  qed
  moreover have "pendingOk ?s" using a(2) by (simp add: pendingOk_def)
  moreover have "ownersOk ?s" using a(3) assms(2) unfolding ownersOk_def by auto
  moreover have "returnedOk ?s"
    using a(4) assms(3) unfolding returnedOk_def by (auto simp: delivered_def)
  moreover have "callsOk ?s" using a(5) by (simp add: callsOk_def)
  ultimately show ?thesis by (simp add: Inv_def)
qed

lemma Inv_resume_own:
  assumes "Inv s" and "tasks s r = Some (AwaitingOwn k p)" and "promiseState s p = Some out"
  shows "Inv (s\<lparr>inFlight := (inFlight s)(k := None),
                tasks := (tasks s)(r \<mapsto> Returned (Some p) (delivered out io))\<rparr>)"
proof -
  let ?s = "s\<lparr>inFlight := (inFlight s)(k := None),
              tasks := (tasks s)(r \<mapsto> Returned (Some p) (delivered out io))\<rparr>"
  from assms(1) have a: "registeredOk s" "pendingOk s" "ownersOk s" "returnedOk s" "callsOk s"
    by (simp_all add: Inv_def)
  from a(3) assms(2) have i: "inFlight s k = Some p"
    and u: "\<And>r'. tasks s r' = Some (AwaitingOwn k p) \<Longrightarrow> r' = r"
    unfolding ownersOk_def by blast+
  have "registeredOk ?s"
    unfolding registeredOk_def
  proof (intro allI impI)
    fix k' q assume q: "inFlight ?s k' = Some q"
    then have n: "k' \<noteq> k" by (auto split: if_splits)
    with q have "inFlight s k' = Some q" by simp
    with a(1) obtain r' where r': "q < length (promises s)" "pr_key (promises s ! q) = k'"
      "tasks s r' = Some (AwaitingOwn k' q)"
      unfolding registeredOk_def by blast
    with assms(2) n have "r' \<noteq> r" by auto
    with r' show "q < length (promises ?s) \<and> pr_key (promises ?s ! q) = k'
        \<and> (\<exists>r. tasks ?s r = Some (AwaitingOwn k' q))" by auto
  qed
  moreover have "pendingOk ?s"
    unfolding pendingOk_def
  proof (intro allI impI, elim conjE)
    fix q assume q: "q < length (promises ?s)" "pr_state (promises ?s ! q) = None"
    then have j: "inFlight s (pr_key (promises s ! q)) = Some q"
      using a(2) unfolding pendingOk_def by simp
    have "pr_key (promises s ! q) \<noteq> k"
    proof
      assume "pr_key (promises s ! q) = k"
      with j i have "q = p" by simp
      with q assms(3) show False by (simp add: promiseState_def)
    qed
    with j show "inFlight ?s (pr_key (promises ?s ! q)) = Some q" by simp
  qed
  moreover have "ownersOk ?s"
    unfolding ownersOk_def
  proof (intro allI impI)
    fix r' k' q assume t: "tasks ?s r' = Some (AwaitingOwn k' q)"
    then have n: "r' \<noteq> r" by (auto split: if_splits)
    with t have t': "tasks s r' = Some (AwaitingOwn k' q)" by simp
    with a(3) have o: "inFlight s k' = Some q"
      "\<forall>r''. tasks s r'' = Some (AwaitingOwn k' q) \<longrightarrow> r'' = r'"
      unfolding ownersOk_def by blast+
    have "k' \<noteq> k"
    proof
      assume "k' = k"
      with o(1) i have "q = p" by simp
      with t' \<open>k' = k\<close> u n show False by blast
    qed
    with o show "inFlight ?s k' = Some q
        \<and> (\<forall>r''. tasks ?s r'' = Some (AwaitingOwn k' q) \<longrightarrow> r'' = r')" by auto
  qed
  moreover have "returnedOk ?s"
    using a(4) assms(3) unfolding returnedOk_def by (auto simp: delivered_def)
  moreover have "callsOk ?s" using a(5) by (simp add: callsOk_def)
  ultimately show ?thesis by (simp add: Inv_def)
qed

lemma Inv_resume:
  assumes "Inv s"
  shows "Inv (resume r io s)"
  using assms
  by (auto simp: resume_def Inv_resume_join Inv_resume_own split: option.splits task.splits)

lemma Inv_step: "Inv s \<Longrightarrow> Inv (step e s)"
  by (cases e) (simp_all add: Inv_arrive Inv_settle Inv_resume)

lemma Inv_run: "Inv s \<Longrightarrow> Inv (run evs s)"
  unfolding run_def by (induction evs arbitrary: s) (simp_all add: Inv_step)

lemma Inv_reachable: "Inv (run evs initial)"
  by (rule Inv_run) (rule Inv_initial)

lemma distinct_all_equal: "distinct xs \<Longrightarrow> \<forall>x \<in> set xs. x = a \<Longrightarrow> length xs \<le> 1"
  by (cases xs; cases "tl xs") auto

lemma pendingFor_registered:
  assumes "pendingOk s" and "p \<in> set (pendingFor s k)"
  shows "inFlight s k = Some p"
  using assms by (auto simp: pendingOk_def pendingFor_def)

lemma pendingFor_at_most_one:
  assumes "pendingOk s"
  shows "length (pendingFor s k) \<le> 1"
proof (cases "pendingFor s k")
  case Nil
  then show ?thesis by simp
next
  case (Cons a as)
  have d: "distinct (pendingFor s k)" by (simp add: pendingFor_def)
  have "\<forall>x \<in> set (pendingFor s k). x = a"
  proof
    fix x assume "x \<in> set (pendingFor s k)"
    then have "inFlight s k = Some x" by (rule pendingFor_registered [OF assms])
    moreover have "inFlight s k = Some a"
      using Cons by (intro pendingFor_registered [OF assms]) simp
    ultimately show "x = a" by simp
  qed
  with d show ?thesis by (rule distinct_all_equal)
qed

text \<open>While a promise is pending, no step calls the origin for its key again.\<close>

lemma step_keeps_pending:
  assumes "Inv s" and "p < length (promises s)" and "pr_state (promises s ! p) = None"
      and "\<forall>out. e \<noteq> Settle p out"
  shows "p < length (promises (step e s))
       \<and> pr_state (promises (step e s) ! p) = None
       \<and> pr_key (promises (step e s) ! p) = pr_key (promises s ! p)
       \<and> count_list (originInvocations (step e s)) (pr_key (promises s ! p))
           = count_list (originInvocations s) (pr_key (promises s ! p))"
proof (cases e)
  case (Arrive r k c io)
  from assms(1) have "pendingOk s" by (simp add: Inv_def)
  with assms(2,3) have i: "inFlight s (pr_key (promises s ! p)) = Some p"
    unfolding pendingOk_def by blast
  then have "inFlight s k = None \<Longrightarrow> k \<noteq> pr_key (promises s ! p)" by auto
  with assms(2,3) show ?thesis
    unfolding Arrive
    by (auto simp: arrive_cases nth_append split: option.splits)
next
  case (Settle q out)
  with assms(4) have "q \<noteq> p" by auto
  with assms(2,3) show ?thesis
    unfolding Settle by (simp add: settle_def)
next
  case (Resume r io)
  with assms(2,3) show ?thesis
    by (simp add: resume_def split: option.splits task.splits)
qed

lemma run_keeps_pending:
  assumes "Inv s" and "p < length (promises s)" and "pr_state (promises s ! p) = None"
      and "\<forall>out. Settle p out \<notin> set es"
  shows "p < length (promises (run es s))
       \<and> pr_state (promises (run es s) ! p) = None
       \<and> pr_key (promises (run es s) ! p) = pr_key (promises s ! p)
       \<and> count_list (originInvocations (run es s)) (pr_key (promises s ! p))
           = count_list (originInvocations s) (pr_key (promises s ! p))"
  using assms
proof (induction es arbitrary: s)
  case Nil
  then show ?case by (simp add: run_def)
next
  case (Cons e es)
  from Cons.prems(4) have ne: "\<forall>out. e \<noteq> Settle p out" and nes: "\<forall>out. Settle p out \<notin> set es"
    by auto
  note st = step_keeps_pending [OF Cons.prems(1) Cons.prems(2) Cons.prems(3) ne]
  have i: "Inv (step e s)" by (rule Inv_step [OF Cons.prems(1)])
  from st have a: "p < length (promises (step e s))"
    and b: "pr_state (promises (step e s) ! p) = None" by simp_all
  note ih = Cons.IH [OF i a b nes]
  have "run (e # es) s = run es (step e s)" by (simp add: run_def)
  with ih st show ?case by simp
qed

lemma first_call_then_joins:
  assumes "Inv s" and "tasks s r = None" and "inFlight s k = None"
      and "c = None \<or> isStale (nowStale io) (the c)"
      and "\<forall>out. Settle (length (promises s)) out \<notin> set es"
  shows "count_list (originInvocations (run (Arrive r k c io # es) s)) k
         = count_list (originInvocations s) k + 1"
proof -
  let ?s = "step (Arrive r k c io) s"
  have e: "?s = produce r k s"
    using assms(2,3,4) by (auto simp: arrive_cases)
  have i: "Inv ?s" by (rule Inv_step [OF assms(1)])
  have p: "length (promises s) < length (promises ?s)"
      "pr_state (promises ?s ! length (promises s)) = None"
      "pr_key (promises ?s ! length (promises s)) = k"
    unfolding e by simp_all
  from run_keeps_pending [OF i p(1) p(2) assms(5)] p(3)
  have "count_list (originInvocations (run es ?s)) k = count_list (originInvocations ?s) k"
    by simp
  moreover have "count_list (originInvocations ?s) k = count_list (originInvocations s) k + 1"
    unfolding e by simp
  moreover have "run (Arrive r k c io # es) s = run es ?s" by (simp add: run_def)
  ultimately show ?thesis by simp
qed

text \<open>
  Claim C1. In every state \<open>s\<close> one worker instance can reach, for every key \<open>k\<close>:
  at most one origin call for \<open>k\<close> is outstanding, and it is the one registered in the
  in-flight map; every origin call made is one promise created. A call that arrives
  for a key with no entry invokes the origin once, and however many calls arrive while
  that call has not settled, the origin is not invoked for the key again: a call that
  finds the entry awaits the registered promise and invokes nothing. A request that
  returned after awaiting a fulfilled promise returned that promise's response, so
  producer and joiners hold the same payload. An entry stays in the map only while its
  producer has not resumed, and the producer's resumption removes it whether the promise
  was fulfilled or rejected.
\<close>

theorem coalescing_one_origin_call_per_key:
  assumes "s = run evs initial"
  shows "length (pendingFor s k) \<le> 1
       \<and> (\<forall>p \<in> set (pendingFor s k). inFlight s k = Some p)
       \<and> originInvocations s = map pr_key (promises s)
       \<and> (tasks s r = None \<and> inFlight s k = None
            \<and> (c = None \<or> isStale (nowStale io) (the c))
            \<and> (\<forall>out. Settle (length (promises s)) out \<notin> set es)
          \<longrightarrow> count_list (originInvocations (run (Arrive r k c io # es) s)) k
              = count_list (originInvocations s) k + 1)
       \<and> (tasks s r = None \<and> inFlight s k = Some p
            \<and> (c = None \<or> isStale (nowStale io) (the c))
          \<longrightarrow> step (Arrive r k c io) s = s\<lparr>tasks := (tasks s)(r \<mapsto> AwaitingJoined p)\<rparr>)
       \<and> (tasks s r = Some (Returned (Some p) resp) \<and> promiseState s p = Some (Fulfilled x)
          \<longrightarrow> resp = x)
       \<and> (inFlight s k = Some p \<longrightarrow> (\<exists>r'. tasks s r' = Some (AwaitingOwn k p)))
       \<and> (tasks s r = Some (AwaitingOwn k p) \<and> promiseState s p = Some out
          \<longrightarrow> inFlight (step (Resume r io) s) k = None
            \<and> tasks (step (Resume r io) s) r = Some (Returned (Some p) (delivered out io)))"
proof -
  have i: "Inv s" unfolding assms by (rule Inv_reachable)
  then have a: "registeredOk s" "pendingOk s" "ownersOk s" "returnedOk s" "callsOk s"
    by (simp_all add: Inv_def)
  have 1: "length (pendingFor s k) \<le> 1" by (rule pendingFor_at_most_one [OF a(2)])
  have 2: "\<forall>p \<in> set (pendingFor s k). inFlight s k = Some p"
    using pendingFor_registered [OF a(2)] by blast
  have 3: "originInvocations s = map pr_key (promises s)" using a(5) by (simp add: callsOk_def)
  have 4: "tasks s r = None \<and> inFlight s k = None
            \<and> (c = None \<or> isStale (nowStale io) (the c))
            \<and> (\<forall>out. Settle (length (promises s)) out \<notin> set es)
          \<longrightarrow> count_list (originInvocations (run (Arrive r k c io # es) s)) k
              = count_list (originInvocations s) k + 1"
    using first_call_then_joins [OF i] by blast
  have 5: "tasks s r = None \<and> inFlight s k = Some p
            \<and> (c = None \<or> isStale (nowStale io) (the c))
          \<longrightarrow> step (Arrive r k c io) s = s\<lparr>tasks := (tasks s)(r \<mapsto> AwaitingJoined p)\<rparr>"
    by (auto simp: arrive_cases)
  have 6: "tasks s r = Some (Returned (Some p) resp) \<and> promiseState s p = Some (Fulfilled x)
          \<longrightarrow> resp = x"
    using a(4) unfolding returnedOk_def by blast
  have 7: "inFlight s k = Some p \<longrightarrow> (\<exists>r'. tasks s r' = Some (AwaitingOwn k p))"
    using a(1) unfolding registeredOk_def by blast
  have 8: "tasks s r = Some (AwaitingOwn k p) \<and> promiseState s p = Some out
          \<longrightarrow> inFlight (step (Resume r io) s) k = None
            \<and> tasks (step (Resume r io) s) r = Some (Returned (Some p) (delivered out io))"
    by (simp add: resume_def)
  from 1 2 3 4 5 6 7 8 show ?thesis by blast
qed

lemma run_threeCalls:
  "run threeCalls initial =
     \<lparr>promises = [\<lparr>pr_key = ''k'', pr_state = None\<rparr>],
      inFlight = [''k'' \<mapsto> 0],
      tasks = [1 \<mapsto> AwaitingOwn ''k'' 0, 2 \<mapsto> AwaitingJoined 0, 3 \<mapsto> AwaitingJoined 0],
      originInvocations = [''k'']\<rparr>"
  by (simp add: run_def threeCalls_def initial_def arrive_def isStale_def ONE_HOUR_def
        sampleEntry_def sampleIo_def)

lemma run_append: "run (xs @ ys) s = run ys (run xs s)"
  by (simp add: run_def)

theorem coalescing_one_origin_call_per_key_witness:
  "length (pendingFor (run threeCalls initial) ''k'') \<le> 1
   \<and> pendingFor (run threeCalls initial) ''k'' = [0]
   \<and> inFlight (run threeCalls initial) ''k'' = Some 0
   \<and> originInvocations (run threeCalls initial) = [''k'']
   \<and> count_list (originInvocations (run threeCalls initial)) ''k'' = 1
   \<and> tasks (run (threeCalls @ [Settle 0 (Fulfilled sampleResponse),
              Resume 2 (sampleIo 50 sampleReply), Resume 1 (sampleIo 50 sampleReply),
              Resume 3 (sampleIo 50 sampleReply)]) initial) 1
      = Some (Returned (Some 0) sampleResponse)
   \<and> tasks (run (threeCalls @ [Settle 0 (Fulfilled sampleResponse),
              Resume 2 (sampleIo 50 sampleReply), Resume 1 (sampleIo 50 sampleReply),
              Resume 3 (sampleIo 50 sampleReply)]) initial) 2
      = Some (Returned (Some 0) sampleResponse)
   \<and> tasks (run (threeCalls @ [Settle 0 (Fulfilled sampleResponse),
              Resume 2 (sampleIo 50 sampleReply), Resume 1 (sampleIo 50 sampleReply),
              Resume 3 (sampleIo 50 sampleReply)]) initial) 3
      = Some (Returned (Some 0) sampleResponse)
   \<and> inFlight (run (threeCalls @ [Settle 0 (Fulfilled sampleResponse),
              Resume 2 (sampleIo 50 sampleReply), Resume 1 (sampleIo 50 sampleReply),
              Resume 3 (sampleIo 50 sampleReply)]) initial) ''k'' = None
   \<and> inFlight (run (threeCalls @ [Settle 0 Rejected, Resume 1 (sampleIo 50 sampleReply)])
        initial) ''k'' = None"
proof -
  let ?s = "run threeCalls initial"
  have p: "pendingFor ?s ''k'' = [0]"
    by (simp add: run_threeCalls pendingFor_def)
  have c: "threeCalls = Arrive 1 ''k'' None (sampleIo 0 sampleReply)
             # [Arrive 2 ''k'' None (sampleIo 5 sampleReply),
                Arrive 3 ''k'' (Some (sampleEntry (- 4000000))) (sampleIo 9 sampleReply)]"
    by (simp add: threeCalls_def)
  have n: "count_list (originInvocations ?s) ''k'' = 1"
    using coalescing_one_origin_call_per_key [where s = initial and evs = "[]" and r = 1
        and k = "''k''" and c = None and io = "sampleIo 0 sampleReply"
        and es = "[Arrive 2 ''k'' None (sampleIo 5 sampleReply),
                   Arrive 3 ''k'' (Some (sampleEntry (- 4000000))) (sampleIo 9 sampleReply)]"]
    unfolding c by (simp add: run_def initial_def)
  have a: "length (pendingFor ?s ''k'') \<le> 1 \<and> inFlight ?s ''k'' = Some 0
           \<and> originInvocations ?s = map pr_key (promises ?s)"
    using coalescing_one_origin_call_per_key [where s = ?s and evs = threeCalls
        and k = "''k''"] p
    by simp
  have e: "run (threeCalls @ [Settle 0 (Fulfilled sampleResponse),
              Resume 2 (sampleIo 50 sampleReply), Resume 1 (sampleIo 50 sampleReply),
              Resume 3 (sampleIo 50 sampleReply)]) initial
           = \<lparr>promises = [\<lparr>pr_key = ''k'', pr_state = Some (Fulfilled sampleResponse)\<rparr>],
              inFlight = Map.empty,
              tasks = [1 \<mapsto> Returned (Some 0) sampleResponse,
                       2 \<mapsto> Returned (Some 0) sampleResponse,
                       3 \<mapsto> Returned (Some 0) sampleResponse],
              originInvocations = [''k'']\<rparr>"
    unfolding run_append run_threeCalls
    by (simp add: run_def settle_def resume_def promiseState_def delivered_def fun_upd_twist)
  have r: "inFlight (run (threeCalls @ [Settle 0 Rejected, Resume 1 (sampleIo 50 sampleReply)])
        initial) ''k'' = None"
    unfolding run_append run_threeCalls
    by (simp add: run_def settle_def resume_def promiseState_def)
  from p n a e r show ?thesis by (simp add: run_threeCalls)
qed

end
